theory Spec2Isabelle
  imports Complex_Main "HOL-Library.Sublist"
begin

section \<open>JavaScript numbers\<close>

text \<open>
  Every quantity of \<^verbatim>\<open>app.js\<close> is a JavaScript number. A number is modelled as the real
  it denotes, or one of the three special values. Arithmetic between finite values is
  exact: rounding to 53 bits, overflow to an infinity and the sign of zero are outside
  this model. The special values follow IEEE 754 as ECMAScript prescribes: \<open>NaN\<close> is
  absorbing, \<open>\<infinity> - \<infinity>\<close>, \<open>0 * \<infinity>\<close>, \<open>\<infinity> / \<infinity>\<close> and \<open>0 / 0\<close> are \<open>NaN\<close>, a non-zero finite
  value divided by zero is an infinity, and every comparison with \<open>NaN\<close> is false.
\<close>

datatype jsnum = NaN | NegInf | Fin real | PosInf

fun isNaN :: "jsnum \<Rightarrow> bool" where
  "isNaN NaN = True"
| "isNaN _ = False"

fun isFinite :: "jsnum \<Rightarrow> bool" where
  "isFinite (Fin _) = True"
| "isFinite _ = False"

instantiation jsnum :: "{plus, minus, uminus, times, inverse, ord}"
begin

fun plus_jsnum :: "jsnum \<Rightarrow> jsnum \<Rightarrow> jsnum" where
  "NaN + _ = NaN"
| "_ + NaN = NaN"
| "Fin a + Fin b = Fin (a + b)"
| "PosInf + NegInf = NaN"
| "NegInf + PosInf = NaN"
| "PosInf + _ = PosInf"
| "_ + PosInf = PosInf"
| "NegInf + _ = NegInf"
| "_ + NegInf = NegInf"

fun uminus_jsnum :: "jsnum \<Rightarrow> jsnum" where
  "- NaN = NaN"
| "- NegInf = PosInf"
| "- Fin a = Fin (- a)"
| "- PosInf = NegInf"

definition minus_jsnum :: "jsnum \<Rightarrow> jsnum \<Rightarrow> jsnum" where
  "a - b = a + (- b :: jsnum)"

fun times_jsnum :: "jsnum \<Rightarrow> jsnum \<Rightarrow> jsnum" where
  "NaN * _ = NaN"
| "_ * NaN = NaN"
| "Fin a * Fin b = Fin (a * b)"
| "Fin a * PosInf = (if a = 0 then NaN else if 0 < a then PosInf else NegInf)"
| "Fin a * NegInf = (if a = 0 then NaN else if 0 < a then NegInf else PosInf)"
| "PosInf * Fin b = (if b = 0 then NaN else if 0 < b then PosInf else NegInf)"
| "NegInf * Fin b = (if b = 0 then NaN else if 0 < b then NegInf else PosInf)"
| "PosInf * PosInf = PosInf"
| "PosInf * NegInf = NegInf"
| "NegInf * PosInf = NegInf"
| "NegInf * NegInf = PosInf"

fun divide_jsnum :: "jsnum \<Rightarrow> jsnum \<Rightarrow> jsnum" where
  "NaN div _ = NaN"
| "_ div NaN = NaN"
| "Fin a div Fin b =
     (if b = 0 then (if a = 0 then NaN else if 0 < a then PosInf else NegInf)
      else Fin (a / b))"
| "Fin a div PosInf = Fin 0"
| "Fin a div NegInf = Fin 0"
| "PosInf div Fin b = (if 0 \<le> b then PosInf else NegInf)"
| "NegInf div Fin b = (if 0 \<le> b then NegInf else PosInf)"
| "PosInf div PosInf = NaN"
| "PosInf div NegInf = NaN"
| "NegInf div PosInf = NaN"
| "NegInf div NegInf = NaN"

definition inverse_jsnum :: "jsnum \<Rightarrow> jsnum" where
  "inverse_jsnum a = Fin 1 div a"

fun less_jsnum :: "jsnum \<Rightarrow> jsnum \<Rightarrow> bool" where
  "NaN < _ = False"
| "_ < NaN = False"
| "Fin a < Fin b = (a < b)"
| "_ < NegInf = False"
| "NegInf < _ = True"
| "PosInf < _ = False"
| "_ < PosInf = True"

fun less_eq_jsnum :: "jsnum \<Rightarrow> jsnum \<Rightarrow> bool" where
  "NaN \<le> _ = False"
| "_ \<le> NaN = False"
| "Fin a \<le> Fin b = (a \<le> b)"
| "NegInf \<le> _ = True"
| "_ \<le> NegInf = False"
| "_ \<le> PosInf = True"
| "PosInf \<le> _ = False"

instance ..

end

text \<open>Strict equality \<^verbatim>\<open>===\<close> on numbers: \<open>NaN\<close> differs from itself.\<close>

definition strict_eq :: "jsnum \<Rightarrow> jsnum \<Rightarrow> bool" where
  "strict_eq a b = (\<not> isNaN a \<and> a = b)"

text \<open>\<^verbatim>\<open>a || b\<close> on numbers: \<open>a\<close> when it is truthy (neither zero nor \<open>NaN\<close>), else \<open>b\<close>.\<close>

fun truthy :: "jsnum \<Rightarrow> bool" where
  "truthy NaN = False"
| "truthy (Fin a) = (a \<noteq> 0)"
| "truthy _ = True"

definition js_or :: "jsnum \<Rightarrow> jsnum \<Rightarrow> jsnum" where
  "js_or a b = (if truthy a then a else b)"

subsection \<open>The Math object\<close>

definition Math_PI :: jsnum where
  "Math_PI = Fin pi"

fun Math_sin :: "jsnum \<Rightarrow> jsnum" where
  "Math_sin (Fin a) = Fin (sin a)"
| "Math_sin _ = NaN"

fun Math_cos :: "jsnum \<Rightarrow> jsnum" where
  "Math_cos (Fin a) = Fin (cos a)"
| "Math_cos _ = NaN"

text \<open>
  The tangent is the quotient of sine and cosine in \<open>jsnum\<close>, so that at a pole of the
  exact tangent the model gives an infinity (no double is a pole, and the program gets a
  huge finite value there).
\<close>

definition Math_tan :: "jsnum \<Rightarrow> jsnum" where
  "Math_tan a = Math_sin a / Math_cos a"

fun Math_exp :: "jsnum \<Rightarrow> jsnum" where
  "Math_exp NaN = NaN"
| "Math_exp NegInf = Fin 0"
| "Math_exp (Fin a) = Fin (exp a)"
| "Math_exp PosInf = PosInf"

fun Math_sqrt :: "jsnum \<Rightarrow> jsnum" where
  "Math_sqrt NaN = NaN"
| "Math_sqrt NegInf = NaN"
| "Math_sqrt (Fin a) = (if a < 0 then NaN else Fin (sqrt a))"
| "Math_sqrt PosInf = PosInf"

fun Math_abs :: "jsnum \<Rightarrow> jsnum" where
  "Math_abs NaN = NaN"
| "Math_abs (Fin a) = Fin \<bar>a\<bar>"
| "Math_abs _ = PosInf"

definition Math_min :: "jsnum \<Rightarrow> jsnum \<Rightarrow> jsnum" where
  "Math_min a b = (if isNaN a \<or> isNaN b then NaN else if a < b then a else b)"

definition Math_max :: "jsnum \<Rightarrow> jsnum \<Rightarrow> jsnum" where
  "Math_max a b = (if isNaN a \<or> isNaN b then NaN else if b < a then a else b)"

text \<open>\<^verbatim>\<open>Math.max(a, b, c)\<close>, as the earthwork renderer calls it.\<close>

definition Math_max3 :: "jsnum \<Rightarrow> jsnum \<Rightarrow> jsnum \<Rightarrow> jsnum" where
  "Math_max3 a b c = Math_max (Math_max a b) c"

definition is_int :: "real \<Rightarrow> bool" where
  "is_int y = (of_int \<lfloor>y\<rfloor> = y)"

definition odd_int :: "real \<Rightarrow> bool" where
  "odd_int y = (is_int y \<and> odd \<lfloor>y\<rfloor>)"

text \<open>\<^verbatim>\<open>Math.pow\<close>, after Number::exponentiate of ECMAScript.\<close>

fun Math_pow :: "jsnum \<Rightarrow> jsnum \<Rightarrow> jsnum" where
  "Math_pow _ NaN = NaN"
| "Math_pow NaN (Fin y) = (if y = 0 then Fin 1 else NaN)"
| "Math_pow NaN _ = NaN"
| "Math_pow PosInf PosInf = PosInf"
| "Math_pow PosInf NegInf = Fin 0"
| "Math_pow PosInf (Fin y) = (if y = 0 then Fin 1 else if 0 < y then PosInf else Fin 0)"
| "Math_pow NegInf PosInf = PosInf"
| "Math_pow NegInf NegInf = Fin 0"
| "Math_pow NegInf (Fin y) =
     (if y = 0 then Fin 1
      else if 0 < y then (if odd_int y then NegInf else PosInf)
      else Fin 0)"
| "Math_pow (Fin x) PosInf =
     (if 1 < \<bar>x\<bar> then PosInf else if \<bar>x\<bar> = 1 then NaN else Fin 0)"
| "Math_pow (Fin x) NegInf =
     (if 1 < \<bar>x\<bar> then Fin 0 else if \<bar>x\<bar> = 1 then NaN else PosInf)"
| "Math_pow (Fin x) (Fin y) =
     (if y = 0 then Fin 1
      else if x = 0 then (if 0 < y then Fin 0 else PosInf)
      else if is_int y then Fin (x powi \<lfloor>y\<rfloor>)
      else if x < 0 then NaN
      else Fin (x powr y))"

section \<open>Strings\<close>

text \<open>
  A string is the list of the bytes of its UTF-8 encoding, as \<^verbatim>\<open>app.js\<close> stores its
  literals. The characters outside ASCII that the program writes are named here.
\<close>

definition em_dash :: string where
  "em_dash = [CHR 0xE2, CHR 0x80, CHR 0x94]"

definition superscript_three :: string where
  "superscript_three = [CHR 0xC2, CHR 0xB3]"

definition greek_sigma :: string where
  "greek_sigma = [CHR 0xCF, CHR 0x83]"

definition greek_tau :: string where
  "greek_tau = [CHR 0xCF, CHR 0x84]"

definition greek_gamma :: string where
  "greek_gamma = [CHR 0xCE, CHR 0xB3]"

definition greek_delta :: string where
  "greek_delta = [CHR 0xCE, CHR 0xB4]"

definition prime_mark :: string where
  "prime_mark = [CHR 0xE2, CHR 0x80, CHR 0xB2]"

subsection \<open>Decimal digits\<close>

definition is_digit :: "char \<Rightarrow> bool" where
  "is_digit c = (c \<in> set ''0123456789'')"

definition digit_char :: "nat \<Rightarrow> char" where
  "digit_char k = ''0123456789'' ! k"

definition digit_val :: "char \<Rightarrow> nat" where
  "digit_val c = of_char c - 48"

definition digits_val :: "string \<Rightarrow> nat" where
  "digits_val s = foldl (\<lambda>a c. 10 * a + digit_val c) 0 s"

fun digits :: "nat \<Rightarrow> string" where
  "digits n = (if n < 10 then [digit_char n] else digits (n div 10) @ [digit_char (n mod 10)])"

declare digits.simps [simp del]

subsection \<open>\<^verbatim>\<open>Number.prototype.toFixed\<close>\<close>

text \<open>
  After ECMAScript: a value that is not finite prints as its name; a negative value prints
  its sign and then its magnitude; a magnitude below \<open>10\<^sup>2\<^sup>1\<close> prints the integer \<open>n\<close> nearest
  to \<open>x * 10\<^sup>f\<close> (the larger one at a tie) with a point before its last \<open>f\<close> digits, padded
  with zeros to \<open>f + 1\<close> digits. From \<open>10\<^sup>2\<^sup>1\<close> on the program gets the exponent notation of
  Number::toString, the shortest digits that denote the double; the model prints the
  digits of the nearest integer there, which is the same shape. The program calls
  \<^verbatim>\<open>toFixed\<close> with 0, 1, 2, 3 and 4 digits only, so the \<^verbatim>\<open>RangeError\<close> for more than 100
  digits cannot arise.
\<close>

definition pad_zeros :: "nat \<Rightarrow> string \<Rightarrow> string" where
  "pad_zeros f m = (if length m \<le> f then replicate (f + 1 - length m) CHR ''0'' @ m else m)"

definition fixed_notation :: "real \<Rightarrow> nat \<Rightarrow> string" where
  "fixed_notation x f =
     (let n = nat \<lfloor>x * 10 ^ f + 1 / 2\<rfloor>;
          m = digits n
      in if f = 0 then m
         else let m' = pad_zeros f m; k = length m'
              in take (k - f) m' @ ''.'' @ drop (k - f) m')"

definition exponent_notation :: "real \<Rightarrow> string" where
  "exponent_notation x =
     (let ds = digits (nat \<lfloor>x + 1 / 2\<rfloor>);
          sig = rev (dropWhile (\<lambda>c. c = CHR ''0'') (rev ds))
      in (case sig of
            [] \<Rightarrow> ''0''
          | d # rest \<Rightarrow> d # (if rest = [] then [] else ''.'' @ rest))
         @ ''e+'' @ digits (length ds - 1))"

fun toFixed :: "jsnum \<Rightarrow> nat \<Rightarrow> string" where
  "toFixed NaN f = ''NaN''"
| "toFixed PosInf f = ''Infinity''"
| "toFixed NegInf f = ''-Infinity''"
| "toFixed (Fin x) f =
     (if x < 0 then ''-'' else []) @
     (if 10 ^ 21 \<le> \<bar>x\<bar> then exponent_notation \<bar>x\<bar> else fixed_notation \<bar>x\<bar> f)"

subsection \<open>\<^verbatim>\<open>parseFloat\<close>\<close>

text \<open>
  After ECMAScript: leading white space is dropped, then the longest prefix that is a
  \<^verbatim>\<open>StrDecimalLiteral\<close> is read: an optional sign, then \<^verbatim>\<open>Infinity\<close> or digits with an
  optional fraction and an optional exponent. Without such a prefix the result is \<open>NaN\<close>.
  The white space characters are given by their UTF-8 encodings.
\<close>

definition white_space :: "string list" where
  "white_space =
     [[CHR 0x09], [CHR 0x0A], [CHR 0x0B], [CHR 0x0C], [CHR 0x0D], [CHR 0x20],
      [CHR 0xC2, CHR 0xA0], [CHR 0xE1, CHR 0x9A, CHR 0x80],
      [CHR 0xE2, CHR 0x80, CHR 0x80], [CHR 0xE2, CHR 0x80, CHR 0x81],
      [CHR 0xE2, CHR 0x80, CHR 0x82], [CHR 0xE2, CHR 0x80, CHR 0x83],
      [CHR 0xE2, CHR 0x80, CHR 0x84], [CHR 0xE2, CHR 0x80, CHR 0x85],
      [CHR 0xE2, CHR 0x80, CHR 0x86], [CHR 0xE2, CHR 0x80, CHR 0x87],
      [CHR 0xE2, CHR 0x80, CHR 0x88], [CHR 0xE2, CHR 0x80, CHR 0x89],
      [CHR 0xE2, CHR 0x80, CHR 0x8A], [CHR 0xE2, CHR 0x80, CHR 0xA8],
      [CHR 0xE2, CHR 0x80, CHR 0xA9], [CHR 0xE2, CHR 0x80, CHR 0xAF],
      [CHR 0xE2, CHR 0x81, CHR 0x9F], [CHR 0xE3, CHR 0x80, CHR 0x80],
      [CHR 0xEF, CHR 0xBB, CHR 0xBF]]"

definition ws_length :: "string \<Rightarrow> nat" where
  "ws_length s = (case find (\<lambda>w. prefix w s) white_space of Some w \<Rightarrow> length w | None \<Rightarrow> 0)"

function trim_start :: "string \<Rightarrow> string" where
  "trim_start s = (if ws_length s = 0 \<or> s = [] then s else trim_start (drop (ws_length s) s))"
  by pat_completeness auto
termination
  by (relation "measure length") auto

declare trim_start.simps [simp del]

definition parse_exponent :: "string \<Rightarrow> int" where
  "parse_exponent r =
     (case r of
        [] \<Rightarrow> 0
      | c # t \<Rightarrow>
          if c = CHR ''e'' \<or> c = CHR ''E'' then
            (let neg = (t \<noteq> [] \<and> hd t = CHR ''-'');
                 u = (if t \<noteq> [] \<and> (hd t = CHR ''-'' \<or> hd t = CHR ''+'') then tl t else t);
                 ds = takeWhile is_digit u
             in if ds = [] then 0
                else if neg then - int (digits_val ds) else int (digits_val ds))
          else 0)"

definition parse_unsigned :: "string \<Rightarrow> jsnum" where
  "parse_unsigned s =
     (if prefix ''Infinity'' s then PosInf
      else
        let ip = takeWhile is_digit s;
            r1 = dropWhile is_digit s;
            fp = (case r1 of [] \<Rightarrow> [] | c # t \<Rightarrow> if c = CHR ''.'' then takeWhile is_digit t else []);
            r2 = (case r1 of [] \<Rightarrow> [] | c # t \<Rightarrow> if c = CHR ''.'' then dropWhile is_digit t else r1)
        in if ip = [] \<and> fp = [] then NaN
           else Fin ((real (digits_val ip) + real (digits_val fp) / 10 ^ length fp)
                     * 10 powi parse_exponent r2))"

definition parseFloat :: "string \<Rightarrow> jsnum" where
  "parseFloat s =
     (case trim_start s of
        [] \<Rightarrow> NaN
      | c # t \<Rightarrow>
          if c = CHR ''-'' then - parse_unsigned t
          else if c = CHR ''+'' then parse_unsigned t
          else parse_unsigned (c # t))"

section \<open>The canvas\<close>

text \<open>
  Each calculator draws on a canvas element of its own through the 2D context it got at
  start-up. The element and its context are one record here: the size of the element, the
  drawing state of the context (which outlives a render: \<^verbatim>\<open>clearRect\<close> does not reset it),
  the current path, and the marks painted on the bitmap since it was last cleared. A mark
  keeps the style it was painted with.
\<close>

datatype path_op =
    MoveTo jsnum jsnum
  | LineTo jsnum jsnum
  | Arc jsnum jsnum jsnum jsnum jsnum
  | ClosePath

datatype mark =
    Cleared jsnum jsnum jsnum jsnum
  | FilledRect string jsnum jsnum jsnum jsnum
  | StrokedRect string jsnum jsnum jsnum jsnum jsnum
  | FilledPath string "path_op list"
  | StrokedPath string jsnum "path_op list"
  | FilledText string string string string jsnum jsnum

record canvas =
  width :: nat
  height :: nat
  fillStyle :: string
  strokeStyle :: string
  lineWidth :: jsnum
  font :: string
  textAlign :: string
  path :: "path_op list"
  marks :: "mark list"

text \<open>A canvas as \<^verbatim>\<open>getContext('2d')\<close> first returns it: default state, nothing painted.\<close>

definition new_canvas :: "nat \<Rightarrow> nat \<Rightarrow> canvas" where
  "new_canvas w h =
     \<lparr>width = w, height = h, fillStyle = ''#000000'', strokeStyle = ''#000000'',
      lineWidth = Fin 1, font = ''10px sans-serif'', textAlign = ''start'',
      path = [], marks = []\<rparr>"

abbreviation cwidth :: "canvas \<Rightarrow> jsnum" where
  "cwidth c \<equiv> Fin (real (width c))"

abbreviation cheight :: "canvas \<Rightarrow> jsnum" where
  "cheight c \<equiv> Fin (real (height c))"

text \<open>
  The methods of the context, after the HTML standard. A call with an argument that is
  not finite does nothing. The styles that the program assigns are valid colours, fonts
  and alignments, so every assignment takes effect; a line width is kept only when it is
  finite and positive.
\<close>

definition set_fillStyle :: "string \<Rightarrow> canvas \<Rightarrow> canvas" where
  "set_fillStyle s c = c\<lparr>fillStyle := s\<rparr>"

definition set_strokeStyle :: "string \<Rightarrow> canvas \<Rightarrow> canvas" where
  "set_strokeStyle s c = c\<lparr>strokeStyle := s\<rparr>"

definition set_lineWidth :: "jsnum \<Rightarrow> canvas \<Rightarrow> canvas" where
  "set_lineWidth v c = (if isFinite v \<and> Fin 0 < v then c\<lparr>lineWidth := v\<rparr> else c)"

definition set_font :: "string \<Rightarrow> canvas \<Rightarrow> canvas" where
  "set_font s c = c\<lparr>font := s\<rparr>"

definition set_textAlign :: "string \<Rightarrow> canvas \<Rightarrow> canvas" where
  "set_textAlign s c = c\<lparr>textAlign := s\<rparr>"

definition clearRect :: "jsnum \<Rightarrow> jsnum \<Rightarrow> jsnum \<Rightarrow> jsnum \<Rightarrow> canvas \<Rightarrow> canvas" where
  "clearRect x y w h c =
     (if \<not> (isFinite x \<and> isFinite y \<and> isFinite w \<and> isFinite h) then c
      else if x \<le> Fin 0 \<and> y \<le> Fin 0 \<and> cwidth c \<le> x + w \<and> cheight c \<le> y + h
        then c\<lparr>marks := []\<rparr>
      else c\<lparr>marks := marks c @ [Cleared x y w h]\<rparr>)"

definition fillRect :: "jsnum \<Rightarrow> jsnum \<Rightarrow> jsnum \<Rightarrow> jsnum \<Rightarrow> canvas \<Rightarrow> canvas" where
  "fillRect x y w h c =
     (if isFinite x \<and> isFinite y \<and> isFinite w \<and> isFinite h \<and> w \<noteq> Fin 0 \<and> h \<noteq> Fin 0
      then c\<lparr>marks := marks c @ [FilledRect (fillStyle c) x y w h]\<rparr>
      else c)"

definition strokeRect :: "jsnum \<Rightarrow> jsnum \<Rightarrow> jsnum \<Rightarrow> jsnum \<Rightarrow> canvas \<Rightarrow> canvas" where
  "strokeRect x y w h c =
     (if isFinite x \<and> isFinite y \<and> isFinite w \<and> isFinite h \<and> \<not> (w = Fin 0 \<and> h = Fin 0)
      then c\<lparr>marks := marks c @ [StrokedRect (strokeStyle c) (lineWidth c) x y w h]\<rparr>
      else c)"

definition beginPath :: "canvas \<Rightarrow> canvas" where
  "beginPath c = c\<lparr>path := []\<rparr>"

definition moveTo :: "jsnum \<Rightarrow> jsnum \<Rightarrow> canvas \<Rightarrow> canvas" where
  "moveTo x y c = (if isFinite x \<and> isFinite y then c\<lparr>path := path c @ [MoveTo x y]\<rparr> else c)"

definition lineTo :: "jsnum \<Rightarrow> jsnum \<Rightarrow> canvas \<Rightarrow> canvas" where
  "lineTo x y c = (if isFinite x \<and> isFinite y then c\<lparr>path := path c @ [LineTo x y]\<rparr> else c)"

definition closePath :: "canvas \<Rightarrow> canvas" where
  "closePath c = (if path c = [] then c else c\<lparr>path := path c @ [ClosePath]\<rparr>)"

definition fill :: "canvas \<Rightarrow> canvas" where
  "fill c = (if path c = [] then c else c\<lparr>marks := marks c @ [FilledPath (fillStyle c) (path c)]\<rparr>)"

definition stroke :: "canvas \<Rightarrow> canvas" where
  "stroke c =
     (if path c = [] then c
      else c\<lparr>marks := marks c @ [StrokedPath (strokeStyle c) (lineWidth c) (path c)]\<rparr>)"

definition fillText :: "string \<Rightarrow> jsnum \<Rightarrow> jsnum \<Rightarrow> canvas \<Rightarrow> canvas" where
  "fillText t x y c =
     (if isFinite x \<and> isFinite y
      then c\<lparr>marks := marks c @ [FilledText (fillStyle c) (font c) (textAlign c) t x y]\<rparr>
      else c)"

text \<open>
  \<^verbatim>\<open>arc\<close> is the one method the program calls that can throw: a negative radius raises
  \<^verbatim>\<open>IndexSizeError\<close>. A step that can throw returns the state it reached and the exception,
  if any; \<open>sequence\<close> runs steps in order and stops at the first exception, as the
  statements of a function body do.
\<close>

datatype exn = IndexSizeError

type_synonym 's step = "'s \<Rightarrow> 's \<times> exn option"

definition ok :: "('s \<Rightarrow> 's) \<Rightarrow> 's step" where
  "ok f s = (f s, None)"

fun sequence :: "'s step list \<Rightarrow> 's step" where
  "sequence [] s = (s, None)"
| "sequence (f # fs) s =
     (case f s of
        (s', None) \<Rightarrow> sequence fs s'
      | (s', Some e) \<Rightarrow> (s', Some e))"

definition arc :: "jsnum \<Rightarrow> jsnum \<Rightarrow> jsnum \<Rightarrow> jsnum \<Rightarrow> jsnum \<Rightarrow> canvas step" where
  "arc x y r a0 a1 c =
     (if \<not> (isFinite x \<and> isFinite y \<and> isFinite r \<and> isFinite a0 \<and> isFinite a1) then (c, None)
      else if r < Fin 0 then (c, Some IndexSizeError)
      else (c\<lparr>path := path c @ [Arc x y r a0 a1]\<rparr>, None))"

text \<open>The \<^verbatim>\<open>for (let i = 0; i <= n; i++)\<close> loops of the renderers.\<close>

function for_upto :: "nat \<Rightarrow> nat \<Rightarrow> (nat \<Rightarrow> 's \<Rightarrow> 's) \<Rightarrow> 's \<Rightarrow> 's" where
  "for_upto i n body s = (if i \<le> n then for_upto (Suc i) n body (body i s) else s)"
  by pat_completeness auto
termination
  by (relation "measure (\<lambda>(i, n, body, s). Suc n - i)") auto

declare for_upto.simps [simp del]

text \<open>The statements of a function body, run in order.\<close>

definition script :: "('s \<Rightarrow> 's) list \<Rightarrow> 's \<Rightarrow> 's" where
  "script ops s = fold (\<lambda>op. op) ops s"

text \<open>Utility: clear canvas.\<close>

definition clearCanvas :: "canvas \<Rightarrow> canvas" where
  "clearCanvas c = clearRect (Fin 0) (Fin 0) (cwidth c) (cheight c) c"

section \<open>The page\<close>

text \<open>
  The script reaches the page through \<^verbatim>\<open>document.getElementById\<close>: the value of an input or
  select element, the text of an output element, and a canvas. The page is these three
  tables, indexed by element id. An update function of \<^verbatim>\<open>app.js\<close> reads the first table and
  writes the other two.
\<close>

record page =
  val :: "string \<Rightarrow> string"
  textContent :: "string \<Rightarrow> string"
  canvas_of :: "string \<Rightarrow> canvas"

definition set_textContent :: "string \<Rightarrow> string \<Rightarrow> page \<Rightarrow> page" where
  "set_textContent out s p = p\<lparr>textContent := (textContent p)(out := s)\<rparr>"

definition on_canvas :: "string \<Rightarrow> (canvas \<Rightarrow> canvas) \<Rightarrow> page \<Rightarrow> page" where
  "on_canvas cid f p = p\<lparr>canvas_of := (canvas_of p)(cid := f (canvas_of p cid))\<rparr>"

definition on_canvas_step :: "string \<Rightarrow> canvas step \<Rightarrow> page step" where
  "on_canvas_step cid f p =
     (case f (canvas_of p cid) of (c, e) \<Rightarrow> (p\<lparr>canvas_of := (canvas_of p)(cid := c)\<rparr>, e))"

text \<open>\<^verbatim>\<open>parseFloat(input.value)\<close> for the input with the given id.\<close>

definition field :: "page \<Rightarrow> string \<Rightarrow> jsnum" where
  "field p i = parseFloat (val p i)"

section \<open>Site/Civil\<close>

definition drawSiteVolume :: "jsnum \<Rightarrow> jsnum \<Rightarrow> canvas \<Rightarrow> canvas" where
  "drawSiteVolume A1 A2 c =
     (let maxA = Math_max3 A1 A2 (Fin 1);
          heightScale = (cheight c - Fin 20) / maxA;
          baseY = cheight c - Fin 10;
          x0 = Fin 20;
          x1 = cwidth c - Fin 20;
          y0 = baseY - A1 * heightScale;
          y1 = baseY - A2 * heightScale
      in script
         [clearCanvas,
          set_fillStyle ''#6fa8dc'',
          beginPath,
          moveTo x0 baseY,
          lineTo x0 y0,
          lineTo x1 y1,
          lineTo x1 baseY,
          closePath,
          fill,
          set_strokeStyle ''#0a253a'',
          stroke,
          set_fillStyle ''#0a253a'',
          set_font ''12px Arial'',
          fillText ''A1'' (x0 - Fin 15) (y0 - Fin 5),
          fillText ''A2'' (x1 + Fin 5) (y1 - Fin 5)] c)"

text \<open>The volume that \<^verbatim>\<open>updateVolume\<close> computes, by the selected method.\<close>

definition volume_of :: "string \<Rightarrow> jsnum \<Rightarrow> jsnum \<Rightarrow> jsnum \<Rightarrow> jsnum" where
  "volume_of method A1 A2 L =
     (if method = ''avg'' then (A1 + A2) / Fin 2 * L
      else let Am = (A1 + A2) / Fin 2 in L / Fin 6 * (A1 + Fin 4 * Am + A2))"

definition updateVolume :: "page \<Rightarrow> page" where
  "updateVolume p =
     (let A1 = field p ''site-a1'';
          A2 = field p ''site-a2'';
          L = field p ''site-length''
      in if isNaN A1 \<or> isNaN A2 \<or> isNaN L \<or> L \<le> Fin 0 then
           script
           [set_textContent ''site-volume'' em_dash,
            on_canvas ''site-canvas'' clearCanvas] p
         else
           let method = val p ''site-method'';
               volume = volume_of method A1 A2 L
           in script
              [set_textContent ''site-volume'' (toFixed volume 2 @ '' m'' @ superscript_three),
               on_canvas ''site-canvas'' (drawSiteVolume A1 A2)] p)"

definition drawRunoffBar :: "jsnum \<Rightarrow> canvas \<Rightarrow> canvas" where
  "drawRunoffBar Q c =
     (let maxQ = Fin 10;
          barWidth = Math_min (cwidth c - Fin 40) ((Q / maxQ) * (cwidth c - Fin 40))
      in script
         [clearCanvas,
          set_fillStyle ''#8fce00'',
          fillRect (Fin 20) (cheight c / Fin 2 - Fin 15) barWidth (Fin 30),
          set_strokeStyle ''#0a253a'',
          strokeRect (Fin 20) (cheight c / Fin 2 - Fin 15) (cwidth c - Fin 40) (Fin 30),
          set_fillStyle ''#0a253a'',
          set_font ''12px Arial'',
          fillText (toFixed Q 2 @ '' m'' @ superscript_three @ ''/s'')
            (Fin 25) (cheight c / Fin 2 + Fin 30)] c)"

definition runoff_Q :: "jsnum \<Rightarrow> jsnum \<Rightarrow> jsnum \<Rightarrow> jsnum" where
  "runoff_Q C I A = C * I * A * Fin 0.00277777778"

definition updateRunoff :: "page \<Rightarrow> page" where
  "updateRunoff p =
     (let C = field p ''runoff-c'';
          I = field p ''runoff-i'';
          A = field p ''runoff-a''
      in if isNaN C \<or> isNaN I \<or> isNaN A \<or> C < Fin 0 \<or> I < Fin 0 \<or> A < Fin 0 then
           script
           [set_textContent ''runoff-q'' em_dash,
            on_canvas ''runoff-canvas'' clearCanvas] p
         else
           let Q = runoff_Q C I A
           in script
              [set_textContent ''runoff-q'' (toFixed Q 3 @ '' m'' @ superscript_three @ ''/s''),
               on_canvas ''runoff-canvas'' (drawRunoffBar Q)] p)"

section \<open>Geotechnical\<close>

definition drawShearDiagram :: "jsnum \<Rightarrow> jsnum \<Rightarrow> canvas \<Rightarrow> canvas" where
  "drawShearDiagram c phiRad cv =
     (let margin = Fin 30;
          axisX0 = margin;
          axisY0 = cheight cv - margin;
          axisX1 = cwidth cv - margin;
          axisY1 = margin;
          maxSigma = Fin 100;
          maxTau = c + maxSigma * Math_tan phiRad;
          xCoord = (\<lambda>sigma. axisX0 + (sigma / maxSigma) * (axisX1 - axisX0));
          yCoord = (\<lambda>tau. axisY0 - (tau / Math_max maxTau (Fin 1)) * (axisY0 - axisY1));
          ticks = 5
      in script
         [clearCanvas,
          set_strokeStyle ''#0a253a'',
          set_lineWidth (Fin 1),
          beginPath,
          moveTo axisX0 axisY0,
          lineTo axisX1 axisY0,
          stroke,
          beginPath,
          moveTo axisX0 axisY0,
          lineTo axisX0 axisY1,
          stroke,
          set_strokeStyle ''#6fa8dc'',
          beginPath,
          moveTo (xCoord (Fin 0)) (yCoord c),
          lineTo (xCoord maxSigma) (yCoord (c + maxSigma * Math_tan phiRad)),
          stroke,
          set_fillStyle ''#0a253a'',
          set_font ''10px Arial'',
          fillText (greek_sigma @ '' (kPa)'') (axisX1 - Fin 40) (axisY0 + Fin 15),
          fillText (greek_tau @ '' (kPa)'') (axisX0 - Fin 25) (axisY1 + Fin 10),
          for_upto 0 ticks (\<lambda>i.
            let sigmaVal = (maxSigma / Fin (real ticks)) * Fin (real i);
                tauVal = (maxTau / Fin (real ticks)) * Fin (real i);
                x = xCoord sigmaVal;
                y = yCoord tauVal
            in script
              [beginPath,
               moveTo x axisY0,
               lineTo x (axisY0 - Fin 5),
               stroke,
               fillText (toFixed sigmaVal 0) (x - Fin 10) (axisY0 + Fin 12),
               beginPath,
               moveTo axisX0 y,
               lineTo (axisX0 + Fin 5) y,
               stroke,
               fillText (toFixed tauVal 0) (axisX0 - Fin 25) (y + Fin 3)])] cv)"

definition shear_phiRad :: "jsnum \<Rightarrow> jsnum" where
  "shear_phiRad phi = (phi * Math_PI) / Fin 180"

definition shear_tau :: "jsnum \<Rightarrow> jsnum \<Rightarrow> jsnum \<Rightarrow> jsnum" where
  "shear_tau c sigma phi = c + sigma * Math_tan (shear_phiRad phi)"

definition updateShear :: "page \<Rightarrow> page" where
  "updateShear p =
     (let c = field p ''geotech-c'';
          sigma = field p ''geotech-sigma'';
          phi = field p ''geotech-phi''
      in if isNaN c \<or> isNaN sigma \<or> isNaN phi then
           script
           [set_textContent ''geotech-tau'' em_dash,
            on_canvas ''geotech-canvas'' clearCanvas] p
         else
           let phiRad = shear_phiRad phi;
               tau = shear_tau c sigma phi
           in script
              [set_textContent ''geotech-tau'' (toFixed tau 2 @ '' kPa''),
               on_canvas ''geotech-canvas'' (drawShearDiagram c phiRad)] p)"

definition drawBearingBar :: "jsnum \<Rightarrow> jsnum \<Rightarrow> jsnum \<Rightarrow> canvas \<Rightarrow> canvas" where
  "drawBearingBar termC termQ termGamma c =
     (let total = termC + termQ + termGamma
      in if total \<le> Fin 0 then clearCanvas c
         else
           let barWidth = cwidth c / Fin 4;
               y = cheight c;
               hC = (termC / total) * (cheight c - Fin 20);
               yC = y - hC;
               hQ = (termQ / total) * (cheight c - Fin 20);
               yQ = yC - hQ;
               hG = (termGamma / total) * (cheight c - Fin 20);
               yG = yQ - hG
           in script
              [clearCanvas,
               set_fillStyle ''#f6b26b'',
               fillRect (Fin 20) yC barWidth hC,
               set_fillStyle ''#6fa8dc'',
               fillRect (Fin 20) yQ barWidth hQ,
               set_fillStyle ''#93c47d'',
               fillRect (Fin 20) yG barWidth hG,
               set_strokeStyle ''#0a253a'',
               strokeRect (Fin 20) (Fin 10) barWidth (cheight c - Fin 20),
               set_fillStyle ''#0a253a'',
               set_font ''10px Arial'',
               fillText (''c'' @ prime_mark @ ''N_c'') (Fin 25 + barWidth) (cheight c - hC / Fin 2),
               fillText (''q'' @ prime_mark @ ''N_q'') (Fin 25 + barWidth)
                 (cheight c - hC - hQ / Fin 2),
               fillText (''0.5'' @ greek_gamma @ prime_mark @ ''BN_'' @ greek_gamma) (Fin 25 + barWidth)
                 (cheight c - hC - hQ - hG / Fin 2)] c)"

text \<open>The bearing capacity factors and the three terms of \<^verbatim>\<open>updateBearing\<close>.\<close>

definition bearing_phiRad :: "jsnum \<Rightarrow> jsnum" where
  "bearing_phiRad phi = (phi * Math_PI) / Fin 180"

definition bearing_Nq :: "jsnum \<Rightarrow> jsnum" where
  "bearing_Nq phiRad =
     Math_exp (Math_PI * Math_tan phiRad)
     * Math_pow (Math_tan (Math_PI / Fin 4 + phiRad / Fin 2)) (Fin 2)"

definition bearing_Nc :: "jsnum \<Rightarrow> jsnum" where
  "bearing_Nc phiRad = (bearing_Nq phiRad - Fin 1) / Math_tan (js_or phiRad (Fin (1 / 10 ^ 6)))"

definition bearing_Ngamma :: "jsnum \<Rightarrow> jsnum" where
  "bearing_Ngamma phiRad = Fin 2 * (bearing_Nq phiRad + Fin 1) * Math_tan phiRad"

definition bearing_qult :: "jsnum \<Rightarrow> jsnum \<Rightarrow> jsnum \<Rightarrow> jsnum \<Rightarrow> jsnum \<Rightarrow> jsnum" where
  "bearing_qult c q gamma B phi =
     (let phiRad = bearing_phiRad phi;
          Nq = bearing_Nq phiRad;
          Nc = bearing_Nc phiRad;
          Ngamma = bearing_Ngamma phiRad
      in c * Nc + q * Nq + Fin 0.5 * gamma * B * Ngamma)"

definition updateBearing :: "page \<Rightarrow> page" where
  "updateBearing p =
     (let c = field p ''bear-c'';
          q = field p ''bear-q'';
          gamma = field p ''bear-gamma'';
          B = field p ''bear-b'';
          phi = field p ''bear-phi''
      in if list_ex (\<lambda>x. isNaN x \<or> B \<le> Fin 0) [c, q, gamma, B, phi] then
           script
           [set_textContent ''bear-qult'' em_dash,
            on_canvas ''bear-canvas'' clearCanvas] p
         else
           let phiRad = bearing_phiRad phi;
               Nq = bearing_Nq phiRad;
               Nc = bearing_Nc phiRad;
               Ngamma = bearing_Ngamma phiRad;
               qult = bearing_qult c q gamma B phi
           in script
              [set_textContent ''bear-qult'' (toFixed qult 2 @ '' kPa''),
               on_canvas ''bear-canvas''
                 (drawBearingBar (c * Nc) (q * Nq) (Fin 0.5 * gamma * B * Ngamma))] p)"

section \<open>Structural\<close>

definition drawBeamDeflection :: "jsnum \<Rightarrow> jsnum \<Rightarrow> jsnum \<Rightarrow> jsnum \<Rightarrow> canvas \<Rightarrow> canvas" where
  "drawBeamDeflection w L E I c =
     (let n = 50;
          scaleX = (cwidth c - Fin 20) / L;
          (ys, yMax) = for_upto 0 n (\<lambda>i (ys, yMax).
            let x = (L / Fin (real n)) * Fin (real i);
                y = (w * x * (Math_pow L (Fin 3) - Fin 2 * L * Math_pow x (Fin 2)
                              + Math_pow x (Fin 3))) / (Fin 24 * E * I)
            in (ys @ [y], if yMax < Math_abs y then Math_abs y else yMax)) ([], Fin 0);
          scaleY = (if Fin 0 < yMax then (cheight c / Fin 4) / yMax else Fin 1)
      in script
         [clearCanvas,
          set_strokeStyle ''#0a253a'',
          beginPath,
          moveTo (Fin 10) (cheight c / Fin 2),
          lineTo (cwidth c - Fin 10) (cheight c / Fin 2),
          stroke,
          set_strokeStyle ''#6fa8dc'',
          beginPath,
          for_upto 0 n (\<lambda>i.
            let x = (L / Fin (real n)) * Fin (real i);
                px = Fin 10 + x * scaleX;
                py = cheight c / Fin 2 - (ys ! i) * scaleY
            in if i = 0 then moveTo px py else lineTo px py),
          stroke] c)"

definition beam_stressRatio :: "jsnum \<Rightarrow> jsnum \<Rightarrow> jsnum \<Rightarrow> jsnum" where
  "beam_stressRatio w L I = (let M = w * L * L / Fin 8 in (M * Fin 1000) / I)"

definition beam_deflect :: "jsnum \<Rightarrow> jsnum \<Rightarrow> jsnum \<Rightarrow> jsnum \<Rightarrow> jsnum" where
  "beam_deflect w L E I =
     (let wN = w * Fin 1000;
          EPa = E * Fin (10 ^ 9)
      in (Fin 5 * wN * Math_pow L (Fin 4)) / (Fin 384 * EPa * I))"

definition updateBeam :: "page \<Rightarrow> page" where
  "updateBeam p =
     (let w = field p ''beam-w'';
          L = field p ''beam-l'';
          E = field p ''beam-e'';
          I = field p ''beam-i''
      in if list_ex (\<lambda>x. isNaN x \<or> x \<le> Fin 0) [w, L, E, I] then
           script
           [set_textContent ''beam-stress'' em_dash,
            set_textContent ''beam-deflection'' em_dash,
            on_canvas ''beam-canvas'' clearCanvas] p
         else
           let stressRatio = beam_stressRatio w L I;
               wN = w * Fin 1000;
               EPa = E * Fin (10 ^ 9);
               deflect = beam_deflect w L E I
           in script
              [set_textContent ''beam-stress''
                 (''M/I: '' @ toFixed stressRatio 2 @ '' 1/m'' @ superscript_three),
               set_textContent ''beam-deflection''
                 (greek_delta @ ''_max: '' @ toFixed deflect 4 @ '' m''),
               on_canvas ''beam-canvas'' (drawBeamDeflection wN L EPa I)] p)"

definition drawBucklingColumn :: "jsnum \<Rightarrow> canvas \<Rightarrow> canvas" where
  "drawBucklingColumn PcrkN c =
     (let colX = cwidth c / Fin 2 - Fin 20;
          colYTop = Fin 20;
          colYBot = cheight c - Fin 40;
          arrowHeight = Math_min ((PcrkN / Fin 1000) * Fin 20) (Fin 100);
          arrowY = colYTop - arrowHeight - Fin 10;
          arrowX = colX + Fin 20
      in script
         [clearCanvas,
          set_fillStyle ''#d9d9d9'',
          fillRect colX colYTop (Fin 40) (colYBot - colYTop),
          set_strokeStyle ''#0a253a'',
          strokeRect colX colYTop (Fin 40) (colYBot - colYTop),
          set_strokeStyle ''#6fa8dc'',
          set_lineWidth (Fin 3),
          beginPath,
          moveTo arrowX colYTop,
          lineTo arrowX arrowY,
          stroke,
          beginPath,
          moveTo (arrowX - Fin 5) (arrowY + Fin 10),
          lineTo arrowX arrowY,
          lineTo (arrowX + Fin 5) (arrowY + Fin 10),
          stroke,
          set_fillStyle ''#0a253a'',
          set_font ''12px Arial'',
          fillText (toFixed PcrkN 1 @ '' kN'') (arrowX + Fin 10) (arrowY + Fin 20)] c)"

definition buckling_PcrkN :: "jsnum \<Rightarrow> jsnum \<Rightarrow> jsnum \<Rightarrow> jsnum \<Rightarrow> jsnum" where
  "buckling_PcrkN E I L K =
     (let EPa = E * Fin (10 ^ 9);
          Pcr = (Math_PI * Math_PI * EPa * I) / Math_pow (K * L) (Fin 2)
      in Pcr / Fin 1000)"

definition updateBuckling :: "page \<Rightarrow> page" where
  "updateBuckling p =
     (let E = field p ''buckling-e'';
          I = field p ''buckling-i'';
          L = field p ''buckling-l'';
          K = field p ''buckling-k''
      in if list_ex (\<lambda>x. isNaN x \<or> x \<le> Fin 0) [E, I, L, K] then
           script
           [set_textContent ''buckling-pcr'' em_dash,
            on_canvas ''buckling-canvas'' clearCanvas] p
         else
           let PcrkN = buckling_PcrkN E I L K
           in script
              [set_textContent ''buckling-pcr'' (toFixed PcrkN 2 @ '' kN''),
               on_canvas ''buckling-canvas'' (drawBucklingColumn PcrkN)] p)"

section \<open>Transportation\<close>

definition drawFundamentalDiagram :: "jsnum \<Rightarrow> jsnum \<Rightarrow> canvas \<Rightarrow> canvas" where
  "drawFundamentalDiagram vf kj c =
     (let margin = Fin 30;
          x0 = margin;
          y0 = cheight c - margin;
          x1 = cwidth c - margin;
          y1 = margin;
          n = 50;
          maxQ = (vf * kj) / Fin 4
      in script
         [clearCanvas,
          set_strokeStyle ''#0a253a'',
          beginPath,
          moveTo x0 y0,
          lineTo x1 y0,
          moveTo x0 y0,
          lineTo x0 y1,
          stroke,
          set_strokeStyle ''#6fa8dc'',
          beginPath,
          for_upto 0 n (\<lambda>i.
            let k = (kj / Fin (real n)) * Fin (real i);
                q = vf * k * (Fin 1 - k / kj);
                px = x0 + (k / kj) * (x1 - x0);
                py = y0 - (q / maxQ) * (y0 - y1)
            in if i = 0 then moveTo px py else lineTo px py),
          stroke,
          set_fillStyle ''#0a253a'',
          set_font ''10px Arial'',
          fillText ''Density (k)'' (x1 - Fin 50) (y0 + Fin 15),
          fillText ''Flow (q)'' (x0 - Fin 25) y1] c)"

definition updateFlow :: "page \<Rightarrow> page" where
  "updateFlow p =
     (let vf = field p ''flow-vf'';
          kj = field p ''flow-kj''
      in if isNaN vf \<or> isNaN kj \<or> vf \<le> Fin 0 \<or> kj \<le> Fin 0 then
           on_canvas ''flow-canvas'' clearCanvas p
         else on_canvas ''flow-canvas'' (drawFundamentalDiagram vf kj) p)"

definition drawStoppingDistance :: "jsnum \<Rightarrow> canvas \<Rightarrow> canvas" where
  "drawStoppingDistance ds c =
     (let margin = Fin 20;
          trackLength = cwidth c - Fin 2 * margin;
          maxDS = Fin 200;
          carX = margin;
          barLength = Math_min trackLength ((ds / maxDS) * trackLength);
          arrowX = carX + barLength
      in script
         [clearCanvas,
          set_fillStyle ''#d9d9d9'',
          fillRect margin (cheight c / Fin 2 - Fin 10) trackLength (Fin 20),
          set_fillStyle ''#6fa8dc'',
          fillRect carX (cheight c / Fin 2 - Fin 10) barLength (Fin 20),
          set_fillStyle ''#f6b26b'',
          fillRect (carX - Fin 10) (cheight c / Fin 2 - Fin 15) (Fin 20) (Fin 15),
          set_fillStyle ''#6fa8dc'',
          beginPath,
          moveTo arrowX (cheight c / Fin 2),
          lineTo (arrowX - Fin 8) (cheight c / Fin 2 - Fin 5),
          lineTo (arrowX - Fin 8) (cheight c / Fin 2 + Fin 5),
          closePath,
          fill,
          set_fillStyle ''#0a253a'',
          set_font ''12px Arial'',
          fillText (toFixed ds 1 @ '' m'') margin (cheight c / Fin 2 + Fin 35)] c)"

definition ssd_denom :: "jsnum \<Rightarrow> jsnum \<Rightarrow> jsnum" where
  "ssd_denom f G = Fin 19.6 * (f + G)"

definition ssd_ds :: "jsnum \<Rightarrow> jsnum \<Rightarrow> jsnum \<Rightarrow> jsnum \<Rightarrow> jsnum" where
  "ssd_ds v tr f G =
     (let v_ms = Fin 0.278 * v;
          denom = ssd_denom f G
      in Fin 0.278 * tr * v + (v_ms * v_ms) / denom)"

definition updateSSD :: "page \<Rightarrow> page" where
  "updateSSD p =
     (let v = field p ''ssd-v'';
          tr = field p ''ssd-tr'';
          f = field p ''ssd-f'';
          G = field p ''ssd-g''
      in if list_ex (\<lambda>x. isNaN x \<or> v \<le> Fin 0 \<or> tr \<le> Fin 0) [v, tr, f, G] then
           script
           [set_textContent ''ssd-distance'' em_dash,
            on_canvas ''ssd-canvas'' clearCanvas] p
         else
           let denom = ssd_denom f G
           in if denom \<le> Fin 0 then
                script
                [set_textContent ''ssd-distance'' ''Invalid parameters'',
                 on_canvas ''ssd-canvas'' clearCanvas] p
              else
                let ds = ssd_ds v tr f G
                in script
                   [set_textContent ''ssd-distance'' (toFixed ds 1 @ '' m''),
                    on_canvas ''ssd-canvas'' (drawStoppingDistance ds)] p)"

section \<open>Environmental\<close>

definition drawDOSag :: "jsnum \<Rightarrow> jsnum \<Rightarrow> jsnum \<Rightarrow> jsnum \<Rightarrow> canvas \<Rightarrow> canvas" where
  "drawDOSag k1 k2 La Da c =
     (let n = 50;
          tMax = Fin 10;
          (values, maxD) = for_upto 0 n (\<lambda>i (values, maxD).
            let t = (tMax / Fin (real n)) * Fin (real i);
                D = (k1 * La) / (k2 - k1) * (Math_exp (- k1 * t) - Math_exp (- k2 * t))
                    + Da * Math_exp (- k2 * t)
            in (values @ [(t, D)], if maxD < D then D else maxD)) ([], Fin 0);
          margin = Fin 30;
          x0 = margin;
          y0 = cheight c - margin;
          x1 = cwidth c - margin;
          y1 = margin
      in script
         [clearCanvas,
          set_strokeStyle ''#0a253a'',
          beginPath,
          moveTo x0 y0,
          lineTo x1 y0,
          moveTo x0 y0,
          lineTo x0 y1,
          stroke,
          set_strokeStyle ''#6fa8dc'',
          beginPath,
          fold (\<lambda>(i, (t, D)).
            let px = x0 + (t / tMax) * (x1 - x0);
                py = y0 - (D / Math_max maxD (Fin (1 / 10 ^ 6))) * (y0 - y1)
            in if i = 0 then moveTo px py else lineTo px py) (enumerate 0 values),
          stroke,
          set_fillStyle ''#0a253a'',
          set_font ''10px Arial'',
          fillText ''Time (days)'' (x1 - Fin 50) (y0 + Fin 15),
          fillText ''DO deficit'' (x0 - Fin 25) y1] c)"

definition updateDO :: "page \<Rightarrow> page" where
  "updateDO p =
     (let k1 = field p ''do-k1'';
          k2 = field p ''do-k2'';
          La = field p ''do-la'';
          Da = field p ''do-da''
      in if list_ex (\<lambda>x. isNaN x \<or> x < Fin 0) [k1, k2, La, Da] \<or> strict_eq k1 k2 then
           on_canvas ''do-canvas'' clearCanvas p
         else on_canvas ''do-canvas'' (drawDOSag k1 k2 La Da) p)"

section \<open>Hydraulics\<close>

definition drawManningChannel :: "jsnum \<Rightarrow> jsnum \<Rightarrow> jsnum \<Rightarrow> canvas \<Rightarrow> canvas" where
  "drawManningChannel b d Q c =
     (let margin = Fin 20;
          maxDim = Math_max b d;
          scale = (cheight c - Fin 2 * margin) / (maxDim * Fin 1.5);
          w = b * scale;
          depth = d * scale;
          startX = (cwidth c - w) / Fin 2;
          waterY = cheight c - margin;
          arrowLength = Math_min (w * Fin 0.8) ((Q / Fin 10) * (w * Fin 0.8));
          arrowY = waterY - depth / Fin 2
      in script
         [clearCanvas,
          set_strokeStyle ''#0a253a'',
          set_fillStyle ''#ffffff'',
          strokeRect startX (waterY - depth) w depth,
          set_fillStyle ''#6fa8dc'',
          fillRect startX (waterY - depth) w depth,
          strokeRect startX (waterY - depth) w depth,
          set_strokeStyle ''#f6b26b'',
          set_lineWidth (Fin 3),
          beginPath,
          moveTo (startX + w * Fin 0.1) arrowY,
          lineTo (startX + w * Fin 0.1 + arrowLength) arrowY,
          stroke,
          beginPath,
          moveTo (startX + w * Fin 0.1 + arrowLength) arrowY,
          lineTo (startX + w * Fin 0.1 + arrowLength - Fin 5) (arrowY - Fin 5),
          lineTo (startX + w * Fin 0.1 + arrowLength - Fin 5) (arrowY + Fin 5),
          closePath,
          set_fillStyle ''#f6b26b'',
          fill,
          set_fillStyle ''#0a253a'',
          set_font ''12px Arial'',
          fillText (toFixed Q 2 @ '' m'' @ superscript_three @ ''/s'')
            (startX + Fin 5) (waterY - depth - Fin 5)] c)"

text \<open>The quantities of \<^verbatim>\<open>updateManning\<close>: area, wetted perimeter, hydraulic radius, discharge.\<close>

definition manning_A :: "jsnum \<Rightarrow> jsnum \<Rightarrow> jsnum" where
  "manning_A b d = b * d"

definition manning_P :: "jsnum \<Rightarrow> jsnum \<Rightarrow> jsnum" where
  "manning_P b d = b + Fin 2 * d"

definition manning_Rh :: "jsnum \<Rightarrow> jsnum \<Rightarrow> jsnum" where
  "manning_Rh b d = manning_A b d / manning_P b d"

definition manning_Q :: "jsnum \<Rightarrow> jsnum \<Rightarrow> jsnum \<Rightarrow> jsnum \<Rightarrow> jsnum" where
  "manning_Q b d S n =
     (let A = manning_A b d;
          Rh = manning_Rh b d
      in (Fin 1 / n) * A * Math_pow Rh (Fin 2 / Fin 3) * Math_sqrt S)"

definition updateManning :: "page \<Rightarrow> page" where
  "updateManning p =
     (let b = field p ''manning-b'';
          d = field p ''manning-d'';
          S = field p ''manning-s'';
          n = field p ''manning-n''
      in if list_ex (\<lambda>x. isNaN x \<or> x \<le> Fin 0) [b, d, S, n] then
           script
           [set_textContent ''manning-q'' em_dash,
            on_canvas ''manning-canvas'' clearCanvas] p
         else
           let Q = manning_Q b d S n
           in script
              [set_textContent ''manning-q'' (toFixed Q 3 @ '' m'' @ superscript_three @ ''/s''),
               on_canvas ''manning-canvas'' (drawManningChannel b d Q)] p)"

section \<open>Construction/PM\<close>

definition drawGauge :: "jsnum \<Rightarrow> jsnum \<Rightarrow> jsnum \<Rightarrow> jsnum \<Rightarrow> string \<Rightarrow> canvas step" where
  "drawGauge cy radius cx v label =
     (let endAngle = Math_PI + Math_min (v / Fin 2) (Fin 1) * Math_PI;
          needleAngle = Math_PI + Math_min (v / Fin 2) (Fin 1) * Math_PI;
          nx = cx + radius * Math_cos needleAngle;
          ny = cy + radius * Math_sin needleAngle
      in sequence
           [ok (script [set_lineWidth (Fin 6), set_strokeStyle ''#ddd'', beginPath]),
            arc cx cy radius Math_PI (Fin 2 * Math_PI),
            ok (script [stroke, set_strokeStyle ''#6fa8dc'', beginPath]),
            arc cx cy radius Math_PI endAngle,
            ok (script
               [stroke,
                set_strokeStyle ''#f6b26b'',
                beginPath,
                moveTo cx cy,
                lineTo nx ny,
                stroke,
                set_fillStyle ''#0a253a'',
                beginPath]),
            arc cx cy (Fin 4) (Fin 0) (Fin 2 * Math_PI),
            ok (script
               [fill,
                set_fillStyle ''#0a253a'',
                set_font ''10px Arial'',
                set_textAlign ''center'',
                fillText label cx (cy + Fin 15),
                fillText (toFixed v 2) cx (cy + Fin 30)])])"

definition drawEVMGauges :: "jsnum \<Rightarrow> jsnum \<Rightarrow> canvas step" where
  "drawEVMGauges SPI CPI c =
     (let cx1 = cwidth c / Fin 3;
          cx2 = (cwidth c / Fin 3) * Fin 2;
          cy = cheight c - Fin 10;
          radius = Math_min (cwidth c / Fin 4) (cheight c - Fin 20)
      in sequence
           [ok clearCanvas,
            drawGauge cy radius cx1 SPI ''SPI'',
            drawGauge cy radius cx2 CPI ''CPI''] c)"

definition evm_SPI :: "jsnum \<Rightarrow> jsnum \<Rightarrow> jsnum" where
  "evm_SPI EV PV = EV / PV"

definition evm_CPI :: "jsnum \<Rightarrow> jsnum \<Rightarrow> jsnum" where
  "evm_CPI EV AC = EV / AC"

definition evm_EAC :: "jsnum \<Rightarrow> jsnum \<Rightarrow> jsnum \<Rightarrow> jsnum" where
  "evm_EAC EV AC BAC = BAC / evm_CPI EV AC"

definition updateEVM :: "page step" where
  "updateEVM p =
     (let EV = field p ''evm-ev'';
          PV = field p ''evm-pv'';
          AC = field p ''evm-ac'';
          BAC = field p ''evm-bac''
      in if list_ex (\<lambda>x. isNaN x \<or> x \<le> Fin 0) [EV, PV, AC, BAC] then
           ok (script
              [set_textContent ''evm-spi'' (''SPI: '' @ em_dash),
               set_textContent ''evm-cpi'' (''CPI: '' @ em_dash),
               set_textContent ''evm-eac'' (''EAC: '' @ em_dash),
               on_canvas ''evm-canvas'' clearCanvas]) p
         else
           let SPI = evm_SPI EV PV;
               CPI = evm_CPI EV AC;
               EAC = evm_EAC EV AC BAC
           in sequence
                [ok (script
                    [set_textContent ''evm-spi'' (''SPI: '' @ toFixed SPI 2),
                     set_textContent ''evm-cpi'' (''CPI: '' @ toFixed CPI 2),
                     set_textContent ''evm-eac'' (''EAC: '' @ toFixed EAC 2)]),
                 on_canvas_step ''evm-canvas'' (drawEVMGauges SPI CPI)] p)"

section \<open>The calculators and their listeners\<close>

datatype calculator =
  Volume | Runoff | Shear | Bearing | Beam | Buckling | Flow | SSD | DOSag | Manning | EVM

text \<open>The update function of each calculator, as a step.\<close>

fun update :: "calculator \<Rightarrow> page step" where
  "update Volume = ok updateVolume"
| "update Runoff = ok updateRunoff"
| "update Shear = ok updateShear"
| "update Bearing = ok updateBearing"
| "update Beam = ok updateBeam"
| "update Buckling = ok updateBuckling"
| "update Flow = ok updateFlow"
| "update SSD = ok updateSSD"
| "update DOSag = ok updateDO"
| "update Manning = ok updateManning"
| "update EVM = updateEVM"

text \<open>The elements whose \<^verbatim>\<open>input\<close> event each update function is registered for.\<close>

fun inputs :: "calculator \<Rightarrow> string list" where
  "inputs Volume = [''site-a1'', ''site-a2'', ''site-length'', ''site-method'']"
| "inputs Runoff = [''runoff-c'', ''runoff-i'', ''runoff-a'']"
| "inputs Shear = [''geotech-c'', ''geotech-sigma'', ''geotech-phi'']"
| "inputs Bearing = [''bear-c'', ''bear-q'', ''bear-gamma'', ''bear-b'', ''bear-phi'']"
| "inputs Beam = [''beam-w'', ''beam-l'', ''beam-e'', ''beam-i'']"
| "inputs Buckling = [''buckling-e'', ''buckling-i'', ''buckling-l'', ''buckling-k'']"
| "inputs Flow = [''flow-vf'', ''flow-kj'']"
| "inputs SSD = [''ssd-v'', ''ssd-tr'', ''ssd-f'', ''ssd-g'']"
| "inputs DOSag = [''do-k1'', ''do-k2'', ''do-la'', ''do-da'']"
| "inputs Manning = [''manning-b'', ''manning-d'', ''manning-s'', ''manning-n'']"
| "inputs EVM = [''evm-ev'', ''evm-pv'', ''evm-ac'', ''evm-bac'']"

fun canvas_id :: "calculator \<Rightarrow> string" where
  "canvas_id Volume = ''site-canvas''"
| "canvas_id Runoff = ''runoff-canvas''"
| "canvas_id Shear = ''geotech-canvas''"
| "canvas_id Bearing = ''bear-canvas''"
| "canvas_id Beam = ''beam-canvas''"
| "canvas_id Buckling = ''buckling-canvas''"
| "canvas_id Flow = ''flow-canvas''"
| "canvas_id SSD = ''ssd-canvas''"
| "canvas_id DOSag = ''do-canvas''"
| "canvas_id Manning = ''manning-canvas''"
| "canvas_id EVM = ''evm-canvas''"

definition calculators :: "calculator list" where
  "calculators = [Volume, Runoff, Shear, Bearing, Beam, Buckling, Flow, SSD, DOSag, Manning, EVM]"

text \<open>
  An \<^verbatim>\<open>input\<close> event on the element \<open>i\<close> after the user has set its value to \<open>s\<close>: the
  listener registered for \<open>i\<close> runs, if there is one.
\<close>

definition input_event :: "string \<Rightarrow> string \<Rightarrow> page step" where
  "input_event i s p =
     (let p' = p\<lparr>val := (val p)(i := s)\<rparr>
      in case find (\<lambda>k. i \<in> set (inputs k)) calculators of
           None \<Rightarrow> (p', None)
         | Some k \<Rightarrow> update k p')"

section \<open>The states and the formatter of the specification\<close>

text \<open>
  The specification speaks of two states of a calculator, of a placeholder and of a
  formatted result. These definitions follow its words; the theorems below compare them
  with the update functions above.
\<close>

text \<open>The fields of a calculator that are parsed as numbers (the method selector is not).\<close>

definition numeric_inputs :: "calculator \<Rightarrow> string list" where
  "numeric_inputs k = filter (\<lambda>i. i \<noteq> ''site-method'') (inputs k)"

text \<open>The domain constraints of each calculator, on parsed fields.\<close>

fun constraints :: "calculator \<Rightarrow> page \<Rightarrow> bool" where
  "constraints Volume p = (Fin 0 < field p ''site-length'')"
| "constraints Runoff p =
     (Fin 0 \<le> field p ''runoff-c'' \<and> Fin 0 \<le> field p ''runoff-i'' \<and> Fin 0 \<le> field p ''runoff-a'')"
| "constraints Shear p = True"
| "constraints Bearing p = (Fin 0 < field p ''bear-b'')"
| "constraints Beam p = list_all (\<lambda>i. Fin 0 < field p i) (inputs Beam)"
| "constraints Buckling p = list_all (\<lambda>i. Fin 0 < field p i) (inputs Buckling)"
| "constraints Flow p = list_all (\<lambda>i. Fin 0 < field p i) (inputs Flow)"
| "constraints SSD p = (Fin 0 < field p ''ssd-v'' \<and> Fin 0 < field p ''ssd-tr'')"
| "constraints DOSag p =
     (list_all (\<lambda>i. Fin 0 \<le> field p i) (inputs DOSag) \<and> field p ''do-k1'' \<noteq> field p ''do-k2'')"
| "constraints Manning p = list_all (\<lambda>i. Fin 0 < field p i) (inputs Manning)"
| "constraints EVM p = list_all (\<lambda>i. Fin 0 < field p i) (inputs EVM)"

text \<open>Computable: every numeric field parses and the constraints hold.\<close>

definition computable :: "calculator \<Rightarrow> page \<Rightarrow> bool" where
  "computable k p = (list_all (\<lambda>i. \<not> isNaN (field p i)) (numeric_inputs k) \<and> constraints k p)"

text \<open>
  The second check of the stopping-sight-distance calculator: the fields are computable
  and the denominator \<open>19.6 (f + G)\<close> is not positive.
\<close>

definition rejected :: "calculator \<Rightarrow> page \<Rightarrow> bool" where
  "rejected k p =
     (k = SSD \<and> computable SSD p \<and> ssd_denom (field p ''ssd-f'') (field p ''ssd-g'') \<le> Fin 0)"

text \<open>
  The text outputs of each calculator: the element, the label before the number, the
  quantity, the number of decimals and the unit after the number.
\<close>

record text_output =
  out_id :: string
  out_label :: string
  out_value :: jsnum
  out_digits :: nat
  out_unit :: string

fun outputs :: "calculator \<Rightarrow> page \<Rightarrow> text_output list" where
  "outputs Volume p =
     [\<lparr>out_id = ''site-volume'', out_label = [],
       out_value = volume_of (val p ''site-method'') (field p ''site-a1'') (field p ''site-a2'')
                     (field p ''site-length''),
       out_digits = 2, out_unit = '' m'' @ superscript_three\<rparr>]"
| "outputs Runoff p =
     [\<lparr>out_id = ''runoff-q'', out_label = [],
       out_value = runoff_Q (field p ''runoff-c'') (field p ''runoff-i'') (field p ''runoff-a''),
       out_digits = 3, out_unit = '' m'' @ superscript_three @ ''/s''\<rparr>]"
| "outputs Shear p =
     [\<lparr>out_id = ''geotech-tau'', out_label = [],
       out_value = shear_tau (field p ''geotech-c'') (field p ''geotech-sigma'')
                     (field p ''geotech-phi''),
       out_digits = 2, out_unit = '' kPa''\<rparr>]"
| "outputs Bearing p =
     [\<lparr>out_id = ''bear-qult'', out_label = [],
       out_value = bearing_qult (field p ''bear-c'') (field p ''bear-q'') (field p ''bear-gamma'')
                     (field p ''bear-b'') (field p ''bear-phi''),
       out_digits = 2, out_unit = '' kPa''\<rparr>]"
| "outputs Beam p =
     [\<lparr>out_id = ''beam-stress'', out_label = ''M/I: '',
       out_value = beam_stressRatio (field p ''beam-w'') (field p ''beam-l'') (field p ''beam-i''),
       out_digits = 2, out_unit = '' 1/m'' @ superscript_three\<rparr>,
      \<lparr>out_id = ''beam-deflection'', out_label = greek_delta @ ''_max: '',
       out_value = beam_deflect (field p ''beam-w'') (field p ''beam-l'') (field p ''beam-e'')
                     (field p ''beam-i''),
       out_digits = 4, out_unit = '' m''\<rparr>]"
| "outputs Buckling p =
     [\<lparr>out_id = ''buckling-pcr'', out_label = [],
       out_value = buckling_PcrkN (field p ''buckling-e'') (field p ''buckling-i'')
                     (field p ''buckling-l'') (field p ''buckling-k''),
       out_digits = 2, out_unit = '' kN''\<rparr>]"
| "outputs Flow p = []"
| "outputs SSD p =
     [\<lparr>out_id = ''ssd-distance'', out_label = [],
       out_value = ssd_ds (field p ''ssd-v'') (field p ''ssd-tr'') (field p ''ssd-f'')
                     (field p ''ssd-g''),
       out_digits = 1, out_unit = '' m''\<rparr>]"
| "outputs DOSag p = []"
| "outputs Manning p =
     [\<lparr>out_id = ''manning-q'', out_label = [],
       out_value = manning_Q (field p ''manning-b'') (field p ''manning-d'')
                     (field p ''manning-s'') (field p ''manning-n''),
       out_digits = 3, out_unit = '' m'' @ superscript_three @ ''/s''\<rparr>]"
| "outputs EVM p =
     [\<lparr>out_id = ''evm-spi'', out_label = ''SPI: '',
       out_value = evm_SPI (field p ''evm-ev'') (field p ''evm-pv''),
       out_digits = 2, out_unit = []\<rparr>,
      \<lparr>out_id = ''evm-cpi'', out_label = ''CPI: '',
       out_value = evm_CPI (field p ''evm-ev'') (field p ''evm-ac''),
       out_digits = 2, out_unit = []\<rparr>,
      \<lparr>out_id = ''evm-eac'', out_label = ''EAC: '',
       out_value = evm_EAC (field p ''evm-ev'') (field p ''evm-ac'') (field p ''evm-bac''),
       out_digits = 2, out_unit = []\<rparr>]"

text \<open>The formatted result, and the placeholder (labelled for the earned-value outputs).\<close>

definition formatted :: "text_output \<Rightarrow> string" where
  "formatted out = out_label out @ toFixed (out_value out) (out_digits out) @ out_unit out"

definition placeholder :: "calculator \<Rightarrow> text_output \<Rightarrow> string" where
  "placeholder k out = (if k = EVM then out_label out @ em_dash else em_dash)"

text \<open>The page after an update, its canvas and what was thrown.\<close>

definition after :: "calculator \<Rightarrow> page \<Rightarrow> page" where
  "after k p = fst (update k p)"

definition thrown :: "calculator \<Rightarrow> page \<Rightarrow> exn option" where
  "thrown k p = snd (update k p)"

definition drawing :: "calculator \<Rightarrow> page \<Rightarrow> mark list" where
  "drawing k p = marks (canvas_of (after k p) (canvas_id k))"

text \<open>
  The conditions under which a renderer is sure to paint: the bearing bar needs a
  positive sum of its three terms and a canvas of positive width, the channel finite
  dimensions, and the gauges a canvas at least 20 pixels high (their radius is
  \<open>min (width / 4) (height - 20)\<close>).
\<close>

definition bearing_total :: "page \<Rightarrow> jsnum" where
  "bearing_total p =
     (let c = field p ''bear-c'';
          q = field p ''bear-q'';
          gamma = field p ''bear-gamma'';
          B = field p ''bear-b'';
          phiRad = bearing_phiRad (field p ''bear-phi'')
      in c * bearing_Nc phiRad + q * bearing_Nq phiRad
         + Fin 0.5 * gamma * B * bearing_Ngamma phiRad)"

fun drawable :: "calculator \<Rightarrow> page \<Rightarrow> bool" where
  "drawable Bearing p =
     (\<not> bearing_total p \<le> Fin 0 \<and> 0 < width (canvas_of p ''bear-canvas''))"
| "drawable Manning p = (isFinite (field p ''manning-b'') \<and> isFinite (field p ''manning-d''))"
| "drawable EVM p = (20 \<le> height (canvas_of p ''evm-canvas''))"
| "drawable _ p = True"

text \<open>A mark lies within the canvas when every point it names does.\<close>

definition inside :: "canvas \<Rightarrow> jsnum \<Rightarrow> jsnum \<Rightarrow> bool" where
  "inside c x y = (Fin 0 \<le> x \<and> x \<le> cwidth c \<and> Fin 0 \<le> y \<and> y \<le> cheight c)"

fun path_op_inside :: "canvas \<Rightarrow> path_op \<Rightarrow> bool" where
  "path_op_inside c (MoveTo x y) = inside c x y"
| "path_op_inside c (LineTo x y) = inside c x y"
| "path_op_inside c (Arc x y r a0 a1) = (inside c (x - r) (y - r) \<and> inside c (x + r) (y + r))"
| "path_op_inside c ClosePath = True"

fun mark_inside :: "canvas \<Rightarrow> mark \<Rightarrow> bool" where
  "mark_inside c (Cleared x y w h) = True"
| "mark_inside c (FilledRect s x y w h) = (inside c x y \<and> inside c (x + w) (y + h))"
| "mark_inside c (StrokedRect s l x y w h) = (inside c x y \<and> inside c (x + w) (y + h))"
| "mark_inside c (FilledPath s ops) = list_all (path_op_inside c) ops"
| "mark_inside c (StrokedPath s l ops) = list_all (path_op_inside c) ops"
| "mark_inside c (FilledText s f a t x y) = inside c x y"

section \<open>Example pages\<close>

text \<open>
  A freshly loaded page whose fields hold the given values: no output text yet, every
  canvas of the default size 300 by 150 with a new context.
\<close>

definition page_with :: "(string \<times> string) list \<Rightarrow> page" where
  "page_with vs =
     \<lparr>val = (\<lambda>i. case map_of vs i of Some s \<Rightarrow> s | None \<Rightarrow> []),
      textContent = (\<lambda>i. []),
      canvas_of = (\<lambda>i. new_canvas 300 150)\<rparr>"

definition manning_page :: page where
  "manning_page =
     page_with [(''manning-b'', ''2''), (''manning-d'', ''1''), (''manning-s'', ''0.001''),
                (''manning-n'', ''0.013'')]"

definition ssd_page :: page where
  "ssd_page =
     page_with [(''ssd-v'', ''100''), (''ssd-tr'', ''2.5''), (''ssd-f'', ''0.3''),
                (''ssd-g'', ''-0.5'')]"

definition buckling_page :: page where
  "buckling_page =
     page_with [(''buckling-e'', ''200''), (''buckling-i'', ''0.0001''), (''buckling-l'', ''3''),
                (''buckling-k'', ''1'')]"

definition bearing_page :: page where
  "bearing_page =
     page_with [(''bear-c'', ''0''), (''bear-q'', ''0''), (''bear-gamma'', ''0''),
                (''bear-b'', ''1''), (''bear-phi'', ''0'')]"



definition site_page :: page where
  "site_page =
     page_with [(''site-a1'', ''-10''), (''site-a2'', ''-20''), (''site-length'', ''5''),
                (''site-method'', ''avg'')]"


definition do_page :: page where
  "do_page =
     page_with [(''do-k1'', ''0.3''), (''do-k2'', ''0.3''), (''do-la'', ''20''),
                (''do-da'', ''2'')]"

text \<open>
  The page of the state that is not computable, as the specification describes it: every
  text output shows its placeholder and the canvas is cleared.
\<close>

definition blank :: "calculator \<Rightarrow> page \<Rightarrow> page" where
  "blank k p =
     on_canvas (canvas_id k) clearCanvas
       (fold (\<lambda>out. set_textContent (out_id out) (placeholder k out)) (outputs k p) p)"

section \<open>Evaluation lemmas\<close>

lemma script_Nil [simp]: "script [] s = s"
  by (simp add: script_def)

lemma script_Cons [simp]: "script (f # fs) s = script fs (f s)"
  by (simp add: script_def)

declare toFixed.simps [simp del]

lemma minus_Fin [simp]: "Fin a - Fin b = Fin (a - b)"
  by (simp add: minus_jsnum_def)

lemma digits_numeral:
  "digits (numeral k) =
     (if (numeral k :: nat) < 10 then [digit_char (numeral k)]
      else digits (numeral k div 10) @ [digit_char (numeral k mod 10)])"
  by (rule digits.simps)

lemma digits_0: "digits 0 = ''0''"
  by (simp add: digits.simps digit_char_def)

lemma digits_1: "digits (Suc 0) = ''1''"
  by (simp add: digits.simps digit_char_def)

lemmas digits_eval = digits_numeral digits_0 digits_1 digit_char_def

section \<open>Manning's equation at the scenario of the specification\<close>

lemma field_manning:
  "field manning_page ''manning-b'' = Fin 2"
  "field manning_page ''manning-d'' = Fin 1"
  "field manning_page ''manning-s'' = Fin (1 / 1000)"
  "field manning_page ''manning-n'' = Fin (13 / 1000)"
  by code_simp+

lemma cube_root_quarter: "((1 / 2 :: real) powr (2 / 3)) ^ 6 = 1 / 16"
proof -
  have "((1 / 2 :: real) powr (2 / 3)) ^ 6 = (1 / 2) powr (of_nat 6 * (2 / 3))"
    by (rule powr_power) simp
  also have "\<dots> = (1 / 2) powr (of_nat 4)"
    by simp
  also have "\<dots> = (1 / 2) ^ 4"
    by (rule powr_realpow) simp
  finally show ?thesis
    by (simp add: power_divide)
qed

lemma sqrt_thousandth: "(sqrt (1 / 1000)) ^ 6 = 1 / 1000000000"
proof -
  have "(sqrt (1 / 1000)) ^ 6 = ((sqrt (1 / 1000))\<^sup>2) ^ 3"
    using power_mult [of "sqrt (1 / 1000)" 2 3] by simp
  then show ?thesis
    by (simp add: power_divide)
qed

lemma manning_discharge:
  obtains q where "manning_Q (Fin 2) (Fin 1) (Fin (1 / 1000)) (Fin (13 / 1000)) = Fin q"
    and "30647 / 10000 < q" and "q < 30648 / 10000"
proof -
  define q :: real where "q = 1 / (13 / 1000) * 2 * (1 / 2) powr (2 / 3) * sqrt (1 / 1000)"
  have pos: "0 \<le> q"
    by (simp add: q_def)
  have "q ^ 6 = (1 / (13 / 1000) * 2) ^ 6 * ((1 / 2) powr (2 / 3)) ^ 6 * (sqrt (1 / 1000)) ^ 6"
    unfolding q_def by (simp only: power_mult_distrib)
  then have p6: "q ^ 6 = 4000000000 / 4826809"
    by (simp only: cube_root_quarter sqrt_thousandth) (simp add: power_divide)
  have "(30647 / 10000 :: real) ^ 6 < q ^ 6"
    unfolding p6 by (simp add: power_divide)
  then have lower: "30647 / 10000 < q"
    using pos by (rule power_less_imp_less_base)
  have "q ^ 6 < (30648 / 10000 :: real) ^ 6"
    unfolding p6 by (simp add: power_divide)
  moreover have "(0 :: real) \<le> 30648 / 10000"
    by simp
  ultimately have upper: "q < 30648 / 10000"
    by (rule power_less_imp_less_base)
  have "manning_Q (Fin 2) (Fin 1) (Fin (1 / 1000)) (Fin (13 / 1000)) = Fin q"
    by (simp add: manning_Q_def manning_Rh_def manning_A_def manning_P_def is_int_def q_def)
  then show ?thesis
    using lower upper that by blast
qed

lemma toFixed_3065:
  assumes "30647 / 10000 < q" and "q < 30648 / 10000"
  shows "toFixed (Fin q) 3 = ''3.065''"
proof -
  have "of_int 3065 \<le> q * 10 ^ 3 + 1 / 2"
    using assms by simp
  moreover have "q * 10 ^ 3 + 1 / 2 < of_int 3065 + 1"
    using assms by simp
  ultimately have "\<lfloor>q * 10 ^ 3 + 1 / 2\<rfloor> = 3065"
    by (rule floor_unique)
  then have n: "nat \<lfloor>q * 10 ^ 3 + 1 / 2\<rfloor> = 3065"
    by simp
  have "fixed_notation q 3 = ''3.065''"
    unfolding fixed_notation_def n by (simp add: digits_eval pad_zeros_def)
  moreover have "\<not> q < 0" and "\<bar>q\<bar> = q" and "\<not> 10 ^ 21 \<le> q"
    using assms by simp_all
  ultimately show ?thesis
    by (simp add: toFixed.simps)
qed

section \<open>Comparisons with zero\<close>

lemma le_zero_iff: "(x \<le> Fin 0) = (\<not> isNaN x \<and> \<not> Fin 0 < x)"
  by (cases x) auto

lemma less_zero_iff: "(x < Fin 0) = (\<not> isNaN x \<and> \<not> Fin 0 \<le> x)"
  by (cases x) auto

lemma strict_eq_iff: "strict_eq a b = (\<not> isNaN a \<and> \<not> isNaN b \<and> a = b)"
  by (cases a; cases b) (auto simp: strict_eq_def)

section \<open>The guard of each update function\<close>

lemma computable_Volume:
  "computable Volume p \<longleftrightarrow>
     \<not> (isNaN (field p ''site-a1'') \<or> isNaN (field p ''site-a2'') \<or> isNaN (field p ''site-length'')
        \<or> field p ''site-length'' \<le> Fin 0)"
  by (auto simp: computable_def numeric_inputs_def le_zero_iff)

lemma computable_Runoff:
  "computable Runoff p \<longleftrightarrow>
     \<not> (isNaN (field p ''runoff-c'') \<or> isNaN (field p ''runoff-i'') \<or> isNaN (field p ''runoff-a'')
        \<or> field p ''runoff-c'' < Fin 0 \<or> field p ''runoff-i'' < Fin 0 \<or> field p ''runoff-a'' < Fin 0)"
  by (auto simp: computable_def numeric_inputs_def less_zero_iff)

lemma computable_Shear:
  "computable Shear p \<longleftrightarrow>
     \<not> (isNaN (field p ''geotech-c'') \<or> isNaN (field p ''geotech-sigma'')
        \<or> isNaN (field p ''geotech-phi''))"
  by (auto simp: computable_def numeric_inputs_def)

lemma computable_Bearing:
  "computable Bearing p \<longleftrightarrow>
     \<not> list_ex (\<lambda>x. isNaN x \<or> field p ''bear-b'' \<le> Fin 0)
         [field p ''bear-c'', field p ''bear-q'', field p ''bear-gamma'', field p ''bear-b'',
          field p ''bear-phi'']"
  by (auto simp: computable_def numeric_inputs_def le_zero_iff)

lemma computable_Beam:
  "computable Beam p \<longleftrightarrow>
     \<not> list_ex (\<lambda>x. isNaN x \<or> x \<le> Fin 0)
         [field p ''beam-w'', field p ''beam-l'', field p ''beam-e'', field p ''beam-i'']"
  by (auto simp: computable_def numeric_inputs_def le_zero_iff)

lemma computable_Buckling:
  "computable Buckling p \<longleftrightarrow>
     \<not> list_ex (\<lambda>x. isNaN x \<or> x \<le> Fin 0)
         [field p ''buckling-e'', field p ''buckling-i'', field p ''buckling-l'',
          field p ''buckling-k'']"
  by (auto simp: computable_def numeric_inputs_def le_zero_iff)

lemma computable_Flow:
  "computable Flow p \<longleftrightarrow>
     \<not> (isNaN (field p ''flow-vf'') \<or> isNaN (field p ''flow-kj'') \<or> field p ''flow-vf'' \<le> Fin 0
        \<or> field p ''flow-kj'' \<le> Fin 0)"
  by (auto simp: computable_def numeric_inputs_def le_zero_iff)

lemma computable_SSD:
  "computable SSD p \<longleftrightarrow>
     \<not> list_ex (\<lambda>x. isNaN x \<or> field p ''ssd-v'' \<le> Fin 0 \<or> field p ''ssd-tr'' \<le> Fin 0)
         [field p ''ssd-v'', field p ''ssd-tr'', field p ''ssd-f'', field p ''ssd-g'']"
  by (auto simp: computable_def numeric_inputs_def le_zero_iff)

lemma computable_DOSag:
  "computable DOSag p \<longleftrightarrow>
     \<not> (list_ex (\<lambda>x. isNaN x \<or> x < Fin 0)
          [field p ''do-k1'', field p ''do-k2'', field p ''do-la'', field p ''do-da'']
        \<or> strict_eq (field p ''do-k1'') (field p ''do-k2''))"
  by (auto simp: computable_def numeric_inputs_def less_zero_iff strict_eq_iff)

lemma computable_Manning:
  "computable Manning p \<longleftrightarrow>
     \<not> list_ex (\<lambda>x. isNaN x \<or> x \<le> Fin 0)
         [field p ''manning-b'', field p ''manning-d'', field p ''manning-s'',
          field p ''manning-n'']"
  by (auto simp: computable_def numeric_inputs_def le_zero_iff)

lemma computable_EVM:
  "computable EVM p \<longleftrightarrow>
     \<not> list_ex (\<lambda>x. isNaN x \<or> x \<le> Fin 0)
         [field p ''evm-ev'', field p ''evm-pv'', field p ''evm-ac'', field p ''evm-bac'']"
  by (auto simp: computable_def numeric_inputs_def le_zero_iff)

lemmas computable_guard =
  computable_Volume computable_Runoff computable_Shear computable_Bearing computable_Beam
  computable_Buckling computable_Flow computable_SSD computable_DOSag computable_Manning
  computable_EVM

lemmas update_defs =
  updateVolume_def updateRunoff_def updateShear_def updateBearing_def updateBeam_def
  updateBuckling_def updateFlow_def updateSSD_def updateDO_def updateManning_def updateEVM_def

lemma not_computable_update: "\<not> computable k p \<Longrightarrow> update k p = (blank k p, None)"
  by (cases k)
    (simp_all add: computable_guard update_defs Let_def ok_def blank_def placeholder_def)

section \<open>What the context methods leave behind\<close>

lemma marks_styles [simp]:
  "marks (set_fillStyle s c) = marks c"
  "marks (set_strokeStyle s c) = marks c"
  "marks (set_lineWidth v c) = marks c"
  "marks (set_font s c) = marks c"
  "marks (set_textAlign s c) = marks c"
  "marks (beginPath c) = marks c"
  "marks (moveTo x y c) = marks c"
  "marks (lineTo x y c) = marks c"
  "marks (closePath c) = marks c"
  by (simp_all add: set_fillStyle_def set_strokeStyle_def set_lineWidth_def set_font_def
      set_textAlign_def beginPath_def moveTo_def lineTo_def closePath_def)

lemma path_styles [simp]:
  "path (set_fillStyle s c) = path c"
  "path (set_strokeStyle s c) = path c"
  "path (set_lineWidth v c) = path c"
  "path (set_font s c) = path c"
  "path (set_textAlign s c) = path c"
  "path (fill c) = path c"
  "path (stroke c) = path c"
  "path (fillRect x y w h c) = path c"
  "path (strokeRect x y w h c) = path c"
  "path (fillText t x y c) = path c"
  "path (clearCanvas c) = path c"
  "path (beginPath c) = []"
  by (simp_all add: set_fillStyle_def set_strokeStyle_def set_lineWidth_def set_font_def
      set_textAlign_def fill_def stroke_def fillRect_def strokeRect_def fillText_def
      clearCanvas_def clearRect_def beginPath_def)

lemma marks_clearCanvas [simp]: "marks (clearCanvas c) = []"
  by (simp add: clearCanvas_def clearRect_def)

lemma path_empty_iff [simp]:
  "path (moveTo x y c) = [] \<longleftrightarrow> path c = [] \<and> \<not> (isFinite x \<and> isFinite y)"
  "path (lineTo x y c) = [] \<longleftrightarrow> path c = [] \<and> \<not> (isFinite x \<and> isFinite y)"
  "path (closePath c) = [] \<longleftrightarrow> path c = []"
  by (auto simp: moveTo_def lineTo_def closePath_def)

lemma marks_empty_iff [simp]:
  "marks (fill c) = [] \<longleftrightarrow> marks c = [] \<and> path c = []"
  "marks (stroke c) = [] \<longleftrightarrow> marks c = [] \<and> path c = []"
  "marks (fillRect x y w h c) = [] \<longleftrightarrow>
     marks c = [] \<and> \<not> (isFinite x \<and> isFinite y \<and> isFinite w \<and> isFinite h \<and> w \<noteq> Fin 0 \<and> h \<noteq> Fin 0)"
  "marks (strokeRect x y w h c) = [] \<longleftrightarrow>
     marks c = [] \<and> \<not> (isFinite x \<and> isFinite y \<and> isFinite w \<and> isFinite h \<and> \<not> (w = Fin 0 \<and> h = Fin 0))"
  "marks (fillText t x y c) = [] \<longleftrightarrow> marks c = [] \<and> \<not> (isFinite x \<and> isFinite y)"
  by (auto simp: fill_def stroke_def fillRect_def strokeRect_def fillText_def)

lemma for_upto_invariant:
  assumes "P s" and "\<And>i s. P s \<Longrightarrow> P (body i s)"
  shows "P (for_upto i n body s)"
  using assms
proof (induction i n body s rule: for_upto.induct)
  case (1 i n body s)
  show ?case
  proof (cases "i \<le> n")
    case True
    have "P (body i s)"
      using "1.prems"(1) by (rule "1.prems"(2))
    then have "P (for_upto (Suc i) n body (body i s))"
      using "1.prems"(2) by (rule "1.IH" [OF True])
    then show ?thesis
      using True by (simp add: for_upto.simps [of i])
  next
    case False
    then show ?thesis
      using "1.prems"(1) by (simp add: for_upto.simps [of i])
  qed
qed

lemma fold_invariant:
  assumes "P s" and "\<And>x s. P s \<Longrightarrow> P (f x s)"
  shows "P (fold f xs s)"
  using assms(1) by (induction xs arbitrary: s) (simp_all add: assms(2))

lemma for_upto_painted [simp]:
  "marks s \<noteq> [] \<Longrightarrow> (\<forall>i s. marks s \<noteq> [] \<longrightarrow> marks (body i s) \<noteq> [])
     \<Longrightarrow> (marks (for_upto i n body s) = []) = False"
  using for_upto_invariant [of "\<lambda>c. marks c \<noteq> []" s body i n] by blast

lemma fold_painted [simp]:
  "marks s \<noteq> [] \<Longrightarrow> (\<forall>x s. marks s \<noteq> [] \<longrightarrow> marks (f x s) \<noteq> [])
     \<Longrightarrow> (marks (fold f xs s) = []) = False"
  using fold_invariant [of "\<lambda>c. marks c \<noteq> []" s f xs] by blast

section \<open>Every renderer paints\<close>

lemma drawSiteVolume_paints: "marks (drawSiteVolume A1 A2 c) \<noteq> []"
  by (simp add: drawSiteVolume_def Let_def)

lemma drawRunoffBar_paints: "marks (drawRunoffBar Q c) \<noteq> []"
  by (simp add: drawRunoffBar_def Let_def)

lemma drawShearDiagram_paints: "marks (drawShearDiagram c phiRad cv) \<noteq> []"
  by (simp add: drawShearDiagram_def Let_def)

lemma drawBeamDeflection_paints: "marks (drawBeamDeflection w L E I c) \<noteq> []"
  by (simp add: drawBeamDeflection_def Let_def split: prod.splits)

lemma drawBucklingColumn_paints: "marks (drawBucklingColumn P c) \<noteq> []"
  by (simp add: drawBucklingColumn_def Let_def)

lemma drawFundamentalDiagram_paints: "marks (drawFundamentalDiagram vf kj c) \<noteq> []"
  by (simp add: drawFundamentalDiagram_def Let_def)

lemma drawStoppingDistance_paints: "marks (drawStoppingDistance ds c) \<noteq> []"
  by (simp add: drawStoppingDistance_def Let_def)

lemma drawDOSag_paints: "marks (drawDOSag k1 k2 La Da c) \<noteq> []"
  by (simp add: drawDOSag_def Let_def split: prod.splits)

lemma Math_max_Fin [simp]: "Math_max (Fin a) (Fin b) = Fin (max a b)"
  by (simp add: Math_max_def max_def)

lemma Math_min_Fin [simp]: "Math_min (Fin a) (Fin b) = Fin (min a b)"
  by (simp add: Math_min_def min_def)

lemma drawBearingBar_blank:
  "termC + termQ + termGamma \<le> Fin 0 \<Longrightarrow> marks (drawBearingBar termC termQ termGamma c) = []"
  by (simp add: drawBearingBar_def Let_def)

lemma drawBearingBar_paints:
  "\<not> termC + termQ + termGamma \<le> Fin 0 \<Longrightarrow> 0 < width c
     \<Longrightarrow> marks (drawBearingBar termC termQ termGamma c) \<noteq> []"
  by (simp add: drawBearingBar_def Let_def)

lemma drawManningChannel_paints:
  assumes "0 < b" and "0 < d"
  shows "marks (drawManningChannel (Fin b) (Fin d) Q c) \<noteq> []"
proof -
  have "max b d * (15 / 10) \<noteq> 0"
    using assms by (simp add: max_def)
  then show ?thesis
    by (simp add: drawManningChannel_def Let_def)
qed

lemma drawGauge_paints:
  assumes "0 \<le> r"
  shows "snd (drawGauge (Fin cy) (Fin r) (Fin cx) v label c) = None
    \<and> marks (fst (drawGauge (Fin cy) (Fin r) (Fin cx) v label c)) \<noteq> []"
  using assms
  by (simp add: drawGauge_def Let_def ok_def arc_def Math_PI_def split: prod.splits option.splits)

lemma drawGauge_result:
  assumes "0 \<le> r"
  obtains c' where "drawGauge (Fin cy) (Fin r) (Fin cx) v label c = (c', None)"
    and "marks c' \<noteq> []"
  using drawGauge_paints [OF assms, of cy cx v label c]
  by (cases "drawGauge (Fin cy) (Fin r) (Fin cx) v label c") simp

lemma drawEVMGauges_paints:
  assumes "20 \<le> height c"
  shows "snd (drawEVMGauges SPI CPI c) = None \<and> marks (fst (drawEVMGauges SPI CPI c)) \<noteq> []"
proof -
  let ?cy = "real (height c) - 10"
  let ?r = "min (real (width c) / 4) (real (height c) - 20)"
  have r: "0 \<le> ?r"
    using assms by simp
  obtain c1 where g1:
    "drawGauge (Fin ?cy) (Fin ?r) (Fin (real (width c) / 3)) SPI ''SPI'' (clearCanvas c) = (c1, None)"
    using drawGauge_result [OF r] by blast
  obtain c2 where g2:
    "drawGauge (Fin ?cy) (Fin ?r) (Fin (real (width c) / 3 * 2)) CPI ''CPI'' c1 = (c2, None)"
    and m2: "marks c2 \<noteq> []"
    using drawGauge_result [OF r] by blast
  have "drawEVMGauges SPI CPI c = (c2, None)"
    using g1 g2 by (simp add: drawEVMGauges_def Let_def ok_def)
  then show ?thesis
    using m2 by simp
qed

section \<open>The two states of a calculator\<close>

lemma page_fields [simp]:
  "textContent (set_textContent out s p) = (textContent p)(out := s)"
  "canvas_of (set_textContent out s p) = canvas_of p"
  "val (set_textContent out s p) = val p"
  "textContent (on_canvas cid f p) = textContent p"
  "canvas_of (on_canvas cid f p) = (canvas_of p)(cid := f (canvas_of p cid))"
  "val (on_canvas cid f p) = val p"
  by (simp_all add: set_textContent_def on_canvas_def)

lemma page_fields_step [simp]:
  "textContent (fst (on_canvas_step cid f p)) = textContent p"
  "canvas_of (fst (on_canvas_step cid f p)) = (canvas_of p)(cid := fst (f (canvas_of p cid)))"
  "val (fst (on_canvas_step cid f p)) = val p"
  "snd (on_canvas_step cid f p) = snd (f (canvas_of p cid))"
  by (simp_all add: on_canvas_step_def split: prod.splits)

lemma sequence_single [simp]: "sequence [g] s = g s"
  by (cases "g s") (auto split: option.splits)

lemma sequence_ok [simp]: "sequence (ok f # fs) s = sequence fs (f s)"
  by (simp add: ok_def)

declare sequence.simps(2) [simp del]

lemma ok_apply [simp]: "fst (ok f s) = f s" "snd (ok f s) = None"
  by (simp_all add: ok_def)

lemma blank_drawing: "marks (canvas_of (blank k p) (canvas_id k)) = []"
  by (simp add: blank_def)

lemma blank_texts:
  "out \<in> set (outputs k p) \<Longrightarrow> textContent (blank k p) (out_id out) = placeholder k out"
  by (cases k) (auto simp: blank_def)

lemma blank_frame:
  "i \<notin> out_id ` set (outputs k p) \<Longrightarrow> textContent (blank k p) i = textContent p i"
  by (cases k) (auto simp: blank_def)

lemma rejected_update:
  "rejected k p \<Longrightarrow>
     update k p =
       (on_canvas ''ssd-canvas'' clearCanvas
          (set_textContent ''ssd-distance'' ''Invalid parameters'' p), None)"
  by (simp add: rejected_def computable_SSD updateSSD_def Let_def ok_def)

lemma computable_texts:
  "computable k p \<Longrightarrow> \<not> rejected k p \<Longrightarrow> out \<in> set (outputs k p)
     \<Longrightarrow> textContent (after k p) (out_id out) = formatted out"
proof (cases k)
  case SSD
  assume "computable k p" and "\<not> rejected k p" and "out \<in> set (outputs k p)"
  with SSD show ?thesis
    unfolding rejected_def
    by (auto simp: computable_SSD updateSSD_def Let_def after_def formatted_def)
qed (auto simp: computable_guard update_defs Let_def after_def formatted_def)

lemma finite_positive:
  assumes "isFinite x" and "\<not> x \<le> Fin 0" and "\<not> isNaN x"
  obtains a where "x = Fin a" and "0 < a"
  using assms by (cases x) auto

lemma computable_drawing:
  assumes "computable k p" and "\<not> rejected k p" and "drawable k p"
  shows "drawing k p \<noteq> [] \<and> thrown k p = None"
proof (cases k)
  case Volume
  with assms show ?thesis
    by (simp add: drawing_def after_def thrown_def computable_Volume updateVolume_def Let_def
        drawSiteVolume_paints)
next
  case Runoff
  with assms show ?thesis
    by (simp add: drawing_def after_def thrown_def computable_Runoff updateRunoff_def Let_def
        drawRunoffBar_paints)
next
  case Shear
  with assms show ?thesis
    by (simp add: drawing_def after_def thrown_def computable_Shear updateShear_def Let_def
        drawShearDiagram_paints)
next
  case Bearing
  with assms show ?thesis
    by (simp add: drawing_def after_def thrown_def computable_Bearing updateBearing_def Let_def
        bearing_total_def drawBearingBar_paints)
next
  case Beam
  with assms show ?thesis
    by (simp add: drawing_def after_def thrown_def computable_Beam updateBeam_def Let_def
        drawBeamDeflection_paints)
next
  case Buckling
  with assms show ?thesis
    by (simp add: drawing_def after_def thrown_def computable_Buckling updateBuckling_def Let_def
        drawBucklingColumn_paints)
next
  case Flow
  with assms show ?thesis
    by (simp add: drawing_def after_def thrown_def computable_Flow updateFlow_def Let_def
        drawFundamentalDiagram_paints)
next
  case SSD
  with assms show ?thesis
    unfolding rejected_def
    by (simp add: drawing_def after_def thrown_def computable_SSD updateSSD_def Let_def
        drawStoppingDistance_paints)
next
  case DOSag
  with assms show ?thesis
    by (simp add: drawing_def after_def thrown_def computable_DOSag updateDO_def Let_def
        drawDOSag_paints)
next
  case Manning
  from assms Manning have guard:
    "\<not> list_ex (\<lambda>x. isNaN x \<or> x \<le> Fin 0)
         [field p ''manning-b'', field p ''manning-d'', field p ''manning-s'',
          field p ''manning-n'']"
    by (simp add: computable_Manning)
  obtain b where b: "field p ''manning-b'' = Fin b" "0 < b"
    using assms(3) guard Manning by (auto elim: finite_positive)
  obtain d where d: "field p ''manning-d'' = Fin d" "0 < d"
    using assms(3) guard Manning by (auto elim: finite_positive)
  from guard have "updateManning p =
      script
        [set_textContent ''manning-q''
           (toFixed (manning_Q (Fin b) (Fin d) (field p ''manning-s'') (field p ''manning-n'')) 3
            @ '' m'' @ superscript_three @ ''/s''),
         on_canvas ''manning-canvas''
           (drawManningChannel (Fin b) (Fin d)
              (manning_Q (Fin b) (Fin d) (field p ''manning-s'') (field p ''manning-n'')))] p"
    using b d by (simp add: updateManning_def Let_def)
  with Manning b d show ?thesis
    by (simp add: drawing_def after_def thrown_def drawManningChannel_paints)
next
  case EVM
  with assms show ?thesis
    by (simp add: drawing_def after_def thrown_def computable_EVM updateEVM_def Let_def
        drawEVMGauges_paints)
qed

lemma bearing_blank:
  "computable Bearing p \<Longrightarrow> bearing_total p \<le> Fin 0 \<Longrightarrow> drawing Bearing p = []"
  by (simp add: drawing_def after_def computable_Bearing updateBearing_def Let_def
      bearing_total_def drawBearingBar_blank)

section \<open>Example pages, evaluated\<close>

lemma field_ssd:
  "field ssd_page ''ssd-v'' = Fin 100"
  "field ssd_page ''ssd-tr'' = Fin (25 / 10)"
  "field ssd_page ''ssd-f'' = Fin (3 / 10)"
  "field ssd_page ''ssd-g'' = Fin (- (5 / 10))"
  by code_simp+

lemma rejected_ssd_page: "rejected SSD ssd_page"
  by (simp add: rejected_def computable_SSD field_ssd ssd_denom_def)

lemma field_empty: "field (page_with []) i = NaN"
  by (simp add: field_def page_with_def parseFloat_def trim_start.simps ws_length_def
      white_space_def)

lemma not_computable_empty: "\<not> computable Volume (page_with [])"
  by (simp add: computable_Volume field_empty)

text \<open>
  C2, as amended. For every calculator, when a field fails to parse or a constraint of the
  validity check fails, nothing is thrown, the canvas is blank, every text output of the
  calculator shows its placeholder and no other text on the page changes. The
  stopping-sight-distance calculator has a second check: with valid fields and
  \<open>19.6 (f + G) \<le> 0\<close> it shows the message \<open>Invalid parameters\<close>, on a blank canvas.
\<close>

theorem not_computable_shows_placeholder:
  "(\<not> computable k p \<longrightarrow>
      thrown k p = None \<and> drawing k p = [] \<and>
      (\<forall>out \<in> set (outputs k p). textContent (after k p) (out_id out) = placeholder k out) \<and>
      (\<forall>i. i \<notin> out_id ` set (outputs k p) \<longrightarrow> textContent (after k p) i = textContent p i)) \<and>
   (rejected k p \<longrightarrow>
      thrown k p = None \<and> drawing k p = [] \<and>
      textContent (after k p) ''ssd-distance'' = ''Invalid parameters'')"
proof (intro conjI impI)
  assume "\<not> computable k p"
  then have u: "update k p = (blank k p, None)"
    by (rule not_computable_update)
  from u show "thrown k p = None"
    by (simp add: thrown_def)
  from u show "drawing k p = []"
    by (simp add: drawing_def after_def blank_drawing)
  from u show "\<forall>out \<in> set (outputs k p). textContent (after k p) (out_id out) = placeholder k out"
    by (simp add: after_def blank_texts)
  from u show "\<forall>i. i \<notin> out_id ` set (outputs k p) \<longrightarrow> textContent (after k p) i = textContent p i"
    by (simp add: after_def blank_frame)
next
  assume r: "rejected k p"
  then have k: "k = SSD"
    by (simp add: rejected_def)
  note u = rejected_update [OF r]
  show "thrown k p = None"
    unfolding thrown_def u by simp
  show "drawing k p = []"
    unfolding drawing_def after_def u using k by simp
  show "textContent (after k p) ''ssd-distance'' = ''Invalid parameters''"
    unfolding after_def u by simp
qed

theorem not_computable_shows_placeholder_witness:
  "\<not> computable Volume (page_with []) \<and>
   drawing Volume (page_with []) = [] \<and>
   textContent (after Volume (page_with [])) ''site-volume'' = em_dash \<and>
   rejected SSD ssd_page \<and>
   drawing SSD ssd_page = [] \<and>
   textContent (after SSD ssd_page) ''ssd-distance'' = ''Invalid parameters''"
  using not_computable_shows_placeholder [of Volume "page_with []"]
    not_computable_shows_placeholder [of SSD ssd_page]
    not_computable_empty rejected_ssd_page
  by (simp add: placeholder_def)

text \<open>
  C2 fails as stated: with \<open>v = 100\<close>, \<open>t = 2.5\<close>, \<open>f = 0.3\<close> and \<open>G = -0.5\<close> the denominator
  is not positive, a constraint of the domain is violated, and the output shows
  \<open>Invalid parameters\<close>, not the dash.
\<close>

theorem ssd_invalid_parameters_message:
  "ssd_denom (field ssd_page ''ssd-f'') (field ssd_page ''ssd-g'') \<le> Fin 0 \<and>
   textContent (after SSD ssd_page) ''ssd-distance'' = ''Invalid parameters'' \<and>
   textContent (after SSD ssd_page) ''ssd-distance'' \<noteq> em_dash"
  unfolding after_def rejected_update [OF rejected_ssd_page]
  by (simp add: field_ssd ssd_denom_def em_dash_def)

section \<open>Manning's equation\<close>

text \<open>
  C1 fails as stated: with \<open>b = 2\<close>, \<open>d = 1\<close>, \<open>S = 0.001\<close> and \<open>n = 0.013\<close> the discharge
  that \<^verbatim>\<open>updateManning\<close> computes is further than 0.5 from 2.43.
\<close>

theorem manning_scenario_not_2_43:
  "\<not> Math_abs (manning_Q (field manning_page ''manning-b'') (field manning_page ''manning-d'')
                  (field manning_page ''manning-s'') (field manning_page ''manning-n'')
                - Fin 2.43) \<le> Fin 0.5"
proof -
  obtain q where "manning_Q (Fin 2) (Fin 1) (Fin (1 / 1000)) (Fin (13 / 1000)) = Fin q"
    and "30647 / 10000 < q" and "q < 30648 / 10000"
    by (rule manning_discharge)
  then show ?thesis
    by (simp add: field_manning)
qed

text \<open>
  C1, as amended. With \<open>b = 2\<close>, \<open>d = 1\<close>, \<open>S = 0.001\<close> and \<open>n = 0.013\<close> the calculator
  computes \<open>A = 2\<close>, \<open>P = 4\<close>, \<open>Rh = 0.5\<close> and a discharge between 3.0647 and 3.0648, and
  displays \<open>3.065 m\<^sup>3/s\<close>.
\<close>

theorem manning_scenario:
  "manning_A (field manning_page ''manning-b'') (field manning_page ''manning-d'') = Fin 2 \<and>
   manning_P (field manning_page ''manning-b'') (field manning_page ''manning-d'') = Fin 4 \<and>
   manning_Rh (field manning_page ''manning-b'') (field manning_page ''manning-d'') = Fin (1 / 2) \<and>
   Fin 3.0647 < manning_Q (field manning_page ''manning-b'') (field manning_page ''manning-d'')
                  (field manning_page ''manning-s'') (field manning_page ''manning-n'') \<and>
   manning_Q (field manning_page ''manning-b'') (field manning_page ''manning-d'')
     (field manning_page ''manning-s'') (field manning_page ''manning-n'') < Fin 3.0648 \<and>
   textContent (updateManning manning_page) ''manning-q'' = ''3.065 m'' @ superscript_three @ ''/s''"
proof -
  obtain q where q: "manning_Q (Fin 2) (Fin 1) (Fin (1 / 1000)) (Fin (13 / 1000)) = Fin q"
    and lo: "30647 / 10000 < q" and hi: "q < 30648 / 10000"
    by (rule manning_discharge)
  have "textContent (updateManning manning_page) ''manning-q''
      = toFixed (Fin q) 3 @ '' m'' @ superscript_three @ ''/s''"
    by (simp add: updateManning_def Let_def field_manning q)
  then have "textContent (updateManning manning_page) ''manning-q''
      = ''3.065 m'' @ superscript_three @ ''/s''"
    by (simp add: toFixed_3065 [OF lo hi])
  moreover have "manning_A (Fin 2) (Fin 1) = Fin 2" "manning_P (Fin 2) (Fin 1) = Fin 4"
    "manning_Rh (Fin 2) (Fin 1) = Fin (1 / 2)"
    by (simp_all add: manning_Rh_def manning_A_def manning_P_def)
  ultimately show ?thesis
    using lo hi by (simp add: field_manning q)
qed

section \<open>Earthwork volume\<close>



lemma formatted_is_not_dash: "s @ '' m'' @ superscript_three \<noteq> em_dash"
proof
  assume "s @ '' m'' @ superscript_three = em_dash"
  then have "length (s @ '' m'' @ superscript_three) = length em_dash"
    by simp
  then show False
    by (simp add: em_dash_def superscript_three_def)
qed

lemma field_site:
  "field site_page ''site-a1'' = Fin (- 10)"
  "field site_page ''site-a2'' = Fin (- 20)"
  "field site_page ''site-length'' = Fin 5"
  "val site_page ''site-method'' = ''avg''"
  by code_simp+

lemma toFixed_minus_75: "toFixed (Fin (- 75)) 2 = ''-75.00''"
  by (simp add: toFixed.simps fixed_notation_def digits_eval pad_zeros_def)

lemma positive_not_NaN: "Fin 0 < x \<Longrightarrow> \<not> isNaN x"
  by (cases x) auto

text \<open>
  C10. The validity check of the earthwork calculator asks only that \<open>A1\<close>, \<open>A2\<close> and \<open>L\<close>
  parse and that \<open>L > 0\<close>: then the formatted volume is shown, not the placeholder, and a
  diagram is drawn, whatever the signs of the areas; otherwise the placeholder is shown on
  a blank canvas.
\<close>

theorem volume_validity:
  "(\<not> isNaN (field p ''site-a1'') \<and> \<not> isNaN (field p ''site-a2'') \<and> Fin 0 < field p ''site-length''
      \<longrightarrow> textContent (updateVolume p) ''site-volume''
            = toFixed (volume_of (val p ''site-method'') (field p ''site-a1'') (field p ''site-a2'')
                         (field p ''site-length'')) 2 @ '' m'' @ superscript_three
          \<and> textContent (updateVolume p) ''site-volume'' \<noteq> em_dash
          \<and> marks (canvas_of (updateVolume p) ''site-canvas'') \<noteq> []) \<and>
   (\<not> (\<not> isNaN (field p ''site-a1'') \<and> \<not> isNaN (field p ''site-a2'') \<and> Fin 0 < field p ''site-length'')
      \<longrightarrow> textContent (updateVolume p) ''site-volume'' = em_dash
          \<and> marks (canvas_of (updateVolume p) ''site-canvas'') = [])"
proof (intro conjI impI)
  assume v: "\<not> isNaN (field p ''site-a1'') \<and> \<not> isNaN (field p ''site-a2'')
    \<and> Fin 0 < field p ''site-length''"
  then have g: "\<not> (isNaN (field p ''site-a1'') \<or> isNaN (field p ''site-a2'')
    \<or> isNaN (field p ''site-length'') \<or> field p ''site-length'' \<le> Fin 0)"
    by (auto simp: le_zero_iff dest: positive_not_NaN)
  from g show t: "textContent (updateVolume p) ''site-volume''
      = toFixed (volume_of (val p ''site-method'') (field p ''site-a1'') (field p ''site-a2'')
                   (field p ''site-length'')) 2 @ '' m'' @ superscript_three"
    by (simp add: updateVolume_def Let_def)
  show "textContent (updateVolume p) ''site-volume'' \<noteq> em_dash"
    unfolding t by (rule formatted_is_not_dash)
  from g show "marks (canvas_of (updateVolume p) ''site-canvas'') \<noteq> []"
    by (simp add: updateVolume_def Let_def drawSiteVolume_paints)
next
  assume "\<not> (\<not> isNaN (field p ''site-a1'') \<and> \<not> isNaN (field p ''site-a2'')
    \<and> Fin 0 < field p ''site-length'')"
  then have g: "isNaN (field p ''site-a1'') \<or> isNaN (field p ''site-a2'')
    \<or> isNaN (field p ''site-length'') \<or> field p ''site-length'' \<le> Fin 0"
    by (auto simp: le_zero_iff)
  from g show "textContent (updateVolume p) ''site-volume'' = em_dash"
    by (simp add: updateVolume_def Let_def)
  from g show "marks (canvas_of (updateVolume p) ''site-canvas'') = []"
    by (simp add: updateVolume_def Let_def)
qed

theorem volume_validity_witness:
  "\<not> isNaN (field site_page ''site-a1'') \<and> \<not> isNaN (field site_page ''site-a2'')
   \<and> Fin 0 < field site_page ''site-length''
   \<and> field site_page ''site-a1'' < Fin 0 \<and> field site_page ''site-a2'' < Fin 0
   \<and> textContent (updateVolume site_page) ''site-volume'' = ''-75.00 m'' @ superscript_three
   \<and> marks (canvas_of (updateVolume site_page) ''site-canvas'') \<noteq> []"
  using volume_validity [of site_page]
  by (simp add: field_site volume_of_def toFixed_minus_75)

section \<open>Dissolved-oxygen sag\<close>

lemma field_do:
  "field do_page ''do-k1'' = Fin (3 / 10)"
  "field do_page ''do-k2'' = Fin (3 / 10)"
  "field do_page ''do-la'' = Fin 20"
  "field do_page ''do-da'' = Fin 2"
  by code_simp+

text \<open>
  C6. Whenever the two rate fields parse to the same value, the DO-sag calculator is not
  computable: \<^verbatim>\<open>updateDO\<close> only clears the canvas, the renderer with its division by
  \<open>k2 - k1\<close> is not run and nothing is drawn.
\<close>

theorem equal_rates_clear_canvas:
  assumes "field p ''do-k1'' = field p ''do-k2''"
  shows "\<not> computable DOSag p \<and> updateDO p = on_canvas ''do-canvas'' clearCanvas p
    \<and> marks (canvas_of (updateDO p) ''do-canvas'') = []"
proof -
  have "list_ex (\<lambda>x. isNaN x \<or> x < Fin 0)
          [field p ''do-k1'', field p ''do-k2'', field p ''do-la'', field p ''do-da'']
        \<or> strict_eq (field p ''do-k1'') (field p ''do-k2'')"
    using assms by (cases "field p ''do-k2''") (simp_all add: strict_eq_def)
  then have u: "updateDO p = on_canvas ''do-canvas'' clearCanvas p"
    by (simp add: updateDO_def Let_def)
  moreover have "\<not> computable DOSag p"
    using assms by (simp add: computable_def)
  ultimately show ?thesis
    by simp
qed

theorem equal_rates_clear_canvas_witness:
  "field do_page ''do-k1'' = field do_page ''do-k2''
   \<and> Fin 0 \<le> field do_page ''do-k1'' \<and> Fin 0 \<le> field do_page ''do-la''
   \<and> Fin 0 \<le> field do_page ''do-da''
   \<and> marks (canvas_of (updateDO do_page) ''do-canvas'') = []"
  using equal_rates_clear_canvas [of do_page]
  by (simp add: field_do)

section \<open>Bearing capacity at a friction angle of zero\<close>

lemma Math_tan_zero: "Math_tan (Fin 0) = Fin 0"
  by (simp add: Math_tan_def)

lemma Math_tan_quarter: "Math_tan (Fin (pi / 4)) = Fin 1"
  by (simp add: Math_tan_def sin_45 cos_45)

lemma Math_tan_epsilon:
  obtains t where "Math_tan (Fin (1 / 10 ^ 6)) = Fin t" and "t \<noteq> 0"
proof -
  have small: "(1 / 10 ^ 6 :: real) < pi / 2"
    using pi_ge_two by simp
  have c: "0 < cos (1 / 10 ^ 6 :: real)"
    using small by (intro cos_gt_zero) simp_all
  have s: "0 < sin (1 / 10 ^ 6 :: real)"
    using small pi_ge_two by (intro sin_gt_zero) simp_all
  have "Math_tan (Fin (1 / 10 ^ 6)) = Fin (sin (1 / 10 ^ 6) / cos (1 / 10 ^ 6))"
    using c by (simp add: Math_tan_def)
  moreover have "sin (1 / 10 ^ 6 :: real) / cos (1 / 10 ^ 6) \<noteq> 0"
    using c s by simp
  ultimately show ?thesis
    using that by blast
qed

lemma bearing_phiRad_zero: "bearing_phiRad (Fin 0) = Fin 0"
  by (simp add: bearing_phiRad_def Math_PI_def)

lemma bearing_Nq_zero: "bearing_Nq (Fin 0) = Fin 1"
  by (simp add: bearing_Nq_def Math_PI_def Math_tan_zero Math_tan_quarter is_int_def)

lemma bearing_Nc_zero: "bearing_Nc (Fin 0) = Fin 0"
proof -
  obtain t where "Math_tan (Fin (1 / 10 ^ 6)) = Fin t" and "t \<noteq> 0"
    by (rule Math_tan_epsilon)
  then show ?thesis
    by (simp add: bearing_Nc_def bearing_Nq_zero js_or_def)
qed

lemma bearing_Ngamma_zero: "bearing_Ngamma (Fin 0) = Fin 0"
  by (simp add: bearing_Ngamma_def bearing_Nq_zero Math_tan_zero)

lemma bearing_qult_zero: "bearing_qult (Fin c) (Fin q) (Fin g) (Fin B) (Fin 0) = Fin q"
  by (simp add: bearing_qult_def Let_def bearing_phiRad_zero bearing_Nq_zero bearing_Nc_zero
      bearing_Ngamma_zero)





section \<open>The two states\<close>

lemma field_bearing:
  "field bearing_page ''bear-c'' = Fin 0"
  "field bearing_page ''bear-q'' = Fin 0"
  "field bearing_page ''bear-gamma'' = Fin 0"
  "field bearing_page ''bear-b'' = Fin 1"
  "field bearing_page ''bear-phi'' = Fin 0"
  by code_simp+

lemma computable_bearing_page: "computable Bearing bearing_page"
  by (simp add: computable_Bearing field_bearing)

lemma bearing_total_bearing_page: "bearing_total bearing_page = Fin 0"
  by (simp add: bearing_total_def Let_def field_bearing bearing_phiRad_zero bearing_Nq_zero
      bearing_Nc_zero bearing_Ngamma_zero)

lemma toFixed_0: "toFixed (Fin 0) 2 = ''0.00''"
  by (simp add: toFixed.simps fixed_notation_def digits_eval pad_zeros_def)

text \<open>
  C4 fails as stated: with \<open>c = q = \<gamma> = 0\<close>, \<open>B = 1\<close> and \<open>\<phi> = 0\<close> the bearing-capacity
  calculator is computable and shows \<open>0.00 kPa\<close>, yet the three terms sum to zero and the
  renderer returns after clearing the canvas: no diagram is drawn.
\<close>

theorem bearing_without_diagram:
  "computable Bearing bearing_page \<and>
   textContent (after Bearing bearing_page) ''bear-qult'' = ''0.00 kPa'' \<and>
   drawing Bearing bearing_page = []"
proof -
  have "textContent (after Bearing bearing_page) ''bear-qult''
      = toFixed (bearing_qult (Fin 0) (Fin 0) (Fin 0) (Fin 1) (Fin 0)) 2 @ '' kPa''"
    using computable_texts [of Bearing bearing_page "hd (outputs Bearing bearing_page)"]
      computable_bearing_page
    by (simp add: rejected_def formatted_def field_bearing)
  then have "textContent (after Bearing bearing_page) ''bear-qult'' = ''0.00 kPa''"
    by (simp add: bearing_qult_zero toFixed_0)
  moreover have "drawing Bearing bearing_page = []"
    using computable_bearing_page by (rule bearing_blank) (simp add: bearing_total_bearing_page)
  ultimately show ?thesis
    using computable_bearing_page by simp
qed

text \<open>
  C4, as amended. The outcome of an update is determined by the validity of the current
  field values. When the validity check fails the page is the blank one: placeholders and
  a cleared canvas. When it passes (and, for the stopping sight distance, the denominator
  is positive) every text output shows its formatted result, and the renderer paints a
  diagram without throwing, provided the renderer can draw: the bearing bar needs a positive
  sum of its three terms and a canvas of positive width, the channel finite dimensions and
  the gauges a canvas at least 20 pixels high. When the three bearing terms sum to at
  most zero, no diagram is drawn beside the number.
\<close>

theorem two_states:
  "(\<not> computable k p \<longrightarrow> update k p = (blank k p, None)) \<and>
   (computable k p \<and> \<not> rejected k p \<longrightarrow>
      (\<forall>out \<in> set (outputs k p). textContent (after k p) (out_id out) = formatted out) \<and>
      (drawable k p \<longrightarrow> drawing k p \<noteq> [] \<and> thrown k p = None)) \<and>
   (computable Bearing p \<and> bearing_total p \<le> Fin 0 \<longrightarrow> drawing Bearing p = [])"
  using not_computable_update [of k p] computable_texts [of k p] computable_drawing [of k p]
    bearing_blank [of p]
  by blast

lemma computable_site_page: "computable Volume site_page"
  by (simp add: computable_Volume field_site)

theorem two_states_witness:
  "\<not> computable Volume (page_with []) \<and>
   update Volume (page_with []) = (blank Volume (page_with []), None) \<and>
   computable Volume site_page \<and> \<not> rejected Volume site_page \<and> drawable Volume site_page \<and>
   textContent (after Volume site_page) ''site-volume'' = ''-75.00 m'' @ superscript_three \<and>
   drawing Volume site_page \<noteq> [] \<and> thrown Volume site_page = None \<and>
   computable Bearing bearing_page \<and> bearing_total bearing_page \<le> Fin 0 \<and>
   drawing Bearing bearing_page = []"
  using two_states [of Volume "page_with []"] two_states [of Volume site_page]
    two_states [of Bearing bearing_page]
    not_computable_empty computable_site_page computable_bearing_page
  by (simp add: rejected_def formatted_def field_site volume_of_def toFixed_minus_75
      bearing_total_bearing_page)

section \<open>The buckling column, rendered twice\<close>

lemmas context_defs =
  set_fillStyle_def set_strokeStyle_def set_lineWidth_def set_font_def set_textAlign_def
  clearCanvas_def clearRect_def fillRect_def strokeRect_def beginPath_def moveTo_def lineTo_def
  closePath_def fill_def stroke_def fillText_def

lemma arrow_saturates:
  "5000 \<le> P \<Longrightarrow> Math_min ((Fin P / Fin 1000) * Fin 20) (Fin 100) = Fin 100"
  by simp

lemma drawBucklingColumn_saturated:
  assumes "width c = 300" and "height c = 150" and "5000 \<le> P"
  shows "marks (drawBucklingColumn (Fin P) c) =
      [FilledRect ''#d9d9d9'' (Fin 130) (Fin 20) (Fin 40) (Fin 90),
       StrokedRect ''#0a253a'' (lineWidth c) (Fin 130) (Fin 20) (Fin 40) (Fin 90),
       StrokedPath ''#6fa8dc'' (Fin 3) [MoveTo (Fin 150) (Fin 20), LineTo (Fin 150) (Fin (- 90))],
       StrokedPath ''#6fa8dc'' (Fin 3)
         [MoveTo (Fin 145) (Fin (- 80)), LineTo (Fin 150) (Fin (- 90)),
          LineTo (Fin 155) (Fin (- 80))],
       FilledText ''#0a253a'' ''12px Arial'' (textAlign c) (toFixed (Fin P) 1 @ '' kN'')
         (Fin 160) (Fin (- 70))]
    \<and> lineWidth (drawBucklingColumn (Fin P) c) = Fin 3
    \<and> textAlign (drawBucklingColumn (Fin P) c) = textAlign c
    \<and> width (drawBucklingColumn (Fin P) c) = 300
    \<and> height (drawBucklingColumn (Fin P) c) = 150"
  unfolding drawBucklingColumn_def Let_def arrow_saturates [OF assms(3)]
  using assms(1,2) by (simp add: context_defs)

lemma field_buckling:
  "field buckling_page ''buckling-e'' = Fin 200"
  "field buckling_page ''buckling-i'' = Fin (1 / 10000)"
  "field buckling_page ''buckling-l'' = Fin 3"
  "field buckling_page ''buckling-k'' = Fin 1"
  by code_simp+

lemma buckling_load:
  obtains P where "buckling_PcrkN (Fin 200) (Fin (1 / 10000)) (Fin 3) (Fin 1) = Fin P"
    and "5000 \<le> P"
proof -
  have "2 * 2 \<le> pi * pi"
    using pi_ge_two by (intro mult_mono) simp_all
  then have "5000 \<le> pi * pi * 20000 / 9"
    by simp
  moreover have "buckling_PcrkN (Fin 200) (Fin (1 / 10000)) (Fin 3) (Fin 1)
      = Fin (pi * pi * 20000 / 9)"
    by (simp add: buckling_PcrkN_def Let_def Math_PI_def is_int_def)
  ultimately show ?thesis
    using that by blast
qed

lemma buckling_canvas: "canvas_of buckling_page i = new_canvas 300 150"
  by (simp add: buckling_page_def page_with_def)

lemma computable_buckling_page: "computable Buckling buckling_page"
  by (simp add: computable_Buckling field_buckling)

lemma updateBuckling_computable:
  assumes "computable Buckling p"
  shows "updateBuckling p =
    script
      [set_textContent ''buckling-pcr''
         (toFixed (buckling_PcrkN (field p ''buckling-e'') (field p ''buckling-i'')
                     (field p ''buckling-l'') (field p ''buckling-k'')) 2 @ '' kN''),
       on_canvas ''buckling-canvas''
         (drawBucklingColumn (buckling_PcrkN (field p ''buckling-e'') (field p ''buckling-i'')
                                (field p ''buckling-l'') (field p ''buckling-k'')))] p"
  using assms by (simp add: computable_Buckling updateBuckling_def Let_def)

lemma val_after_update: "val (after k p) = val p"
  by (cases k) (simp_all add: after_def update_defs Let_def)

lemma field_after_update: "field (after k p) i = field p i"
  by (simp add: field_def val_after_update)

lemma first_buckling_render:
  obtains P where "5000 \<le> P" and "drawing Buckling buckling_page =
      [FilledRect ''#d9d9d9'' (Fin 130) (Fin 20) (Fin 40) (Fin 90),
       StrokedRect ''#0a253a'' (Fin 1) (Fin 130) (Fin 20) (Fin 40) (Fin 90),
       StrokedPath ''#6fa8dc'' (Fin 3) [MoveTo (Fin 150) (Fin 20), LineTo (Fin 150) (Fin (- 90))],
       StrokedPath ''#6fa8dc'' (Fin 3)
         [MoveTo (Fin 145) (Fin (- 80)), LineTo (Fin 150) (Fin (- 90)),
          LineTo (Fin 155) (Fin (- 80))],
       FilledText ''#0a253a'' ''12px Arial'' ''start'' (toFixed (Fin P) 1 @ '' kN'')
         (Fin 160) (Fin (- 70))]"
    and "drawing Buckling (after Buckling buckling_page) =
      [FilledRect ''#d9d9d9'' (Fin 130) (Fin 20) (Fin 40) (Fin 90),
       StrokedRect ''#0a253a'' (Fin 3) (Fin 130) (Fin 20) (Fin 40) (Fin 90),
       StrokedPath ''#6fa8dc'' (Fin 3) [MoveTo (Fin 150) (Fin 20), LineTo (Fin 150) (Fin (- 90))],
       StrokedPath ''#6fa8dc'' (Fin 3)
         [MoveTo (Fin 145) (Fin (- 80)), LineTo (Fin 150) (Fin (- 90)),
          LineTo (Fin 155) (Fin (- 80))],
       FilledText ''#0a253a'' ''12px Arial'' ''start'' (toFixed (Fin P) 1 @ '' kN'')
         (Fin 160) (Fin (- 70))]"
proof -
  obtain P where P: "buckling_PcrkN (Fin 200) (Fin (1 / 10000)) (Fin 3) (Fin 1) = Fin P"
    and big: "5000 \<le> P"
    by (rule buckling_load)
  let ?c0 = "new_canvas 300 150"
  let ?c1 = "drawBucklingColumn (Fin P) ?c0"
  have c0: "width ?c0 = 300" "height ?c0 = 150" "lineWidth ?c0 = Fin 1" "textAlign ?c0 = ''start''"
    by (simp_all add: new_canvas_def)
  note r1 = drawBucklingColumn_saturated [OF c0(1,2) big]
  from r1 have w1: "width ?c1 = 300" "height ?c1 = 150"
    by simp_all
  note r2 = drawBucklingColumn_saturated [OF w1 big]
  have u1: "after Buckling buckling_page =
      script [set_textContent ''buckling-pcr'' (toFixed (Fin P) 2 @ '' kN''),
              on_canvas ''buckling-canvas'' (drawBucklingColumn (Fin P))] buckling_page"
    unfolding after_def
    by (simp add: updateBuckling_computable [OF computable_buckling_page] field_buckling P)
  have comp2: "computable Buckling (after Buckling buckling_page)"
    using computable_buckling_page
    by (simp add: computable_Buckling field_after_update)
  have u2: "after Buckling (after Buckling buckling_page) =
      script [set_textContent ''buckling-pcr'' (toFixed (Fin P) 2 @ '' kN''),
              on_canvas ''buckling-canvas'' (drawBucklingColumn (Fin P))]
        (after Buckling buckling_page)"
    using updateBuckling_computable [OF comp2]
    by (simp add: after_def [of Buckling "after Buckling buckling_page"] field_after_update
        field_buckling P)
  have d1: "drawing Buckling buckling_page = marks ?c1"
    unfolding drawing_def u1 by (simp add: buckling_canvas)
  have "canvas_of (after Buckling buckling_page) ''buckling-canvas'' = ?c1"
    unfolding u1 by (simp add: buckling_canvas)
  then have d2: "drawing Buckling (after Buckling buckling_page)
      = marks (drawBucklingColumn (Fin P) ?c1)"
    unfolding drawing_def u2 by simp
  show ?thesis
    using that [OF big] d1 d2 r1 r2 c0(3,4) by simp
qed

text \<open>
  C3, evaluated at \<open>E = 200\<close>, \<open>I = 0.0001\<close>, \<open>L = 3\<close>, \<open>K = 1\<close> on a canvas of 300 by 150:
  the arrow is clamped to a length of 100 but starts 20 pixels below the top edge, so its
  shaft runs from \<open>y = 20\<close> to \<open>y = -90\<close> and the drawing does not lie within the canvas.
\<close>

theorem buckling_arrow_leaves_canvas:
  "StrokedPath ''#6fa8dc'' (Fin 3) [MoveTo (Fin 150) (Fin 20), LineTo (Fin 150) (Fin (- 90))]
     \<in> set (drawing Buckling buckling_page) \<and>
   \<not> list_all (mark_inside (canvas_of (after Buckling buckling_page) ''buckling-canvas''))
       (drawing Buckling buckling_page)"
proof -
  obtain P where "drawing Buckling buckling_page =
      [FilledRect ''#d9d9d9'' (Fin 130) (Fin 20) (Fin 40) (Fin 90),
       StrokedRect ''#0a253a'' (Fin 1) (Fin 130) (Fin 20) (Fin 40) (Fin 90),
       StrokedPath ''#6fa8dc'' (Fin 3) [MoveTo (Fin 150) (Fin 20), LineTo (Fin 150) (Fin (- 90))],
       StrokedPath ''#6fa8dc'' (Fin 3)
         [MoveTo (Fin 145) (Fin (- 80)), LineTo (Fin 150) (Fin (- 90)),
          LineTo (Fin 155) (Fin (- 80))],
       FilledText ''#0a253a'' ''12px Arial'' ''start'' (toFixed (Fin P) 1 @ '' kN'')
         (Fin 160) (Fin (- 70))]"
    by (rule first_buckling_render)
  then show ?thesis
    by (simp add: inside_def)
qed

text \<open>
  C8, evaluated at the same fields: the first render of a fresh page strokes the outline of
  the column with the default line width 1, and a second run with the same field values
  strokes it with the width 3 that the first one left in the context. The text is the
  same, the drawing is not.
\<close>

theorem buckling_second_render_differs:
  "val (after Buckling buckling_page) = val buckling_page \<and>
   textContent (after Buckling (after Buckling buckling_page))
     = textContent (after Buckling buckling_page) \<and>
   drawing Buckling buckling_page ! 1
     = StrokedRect ''#0a253a'' (Fin 1) (Fin 130) (Fin 20) (Fin 40) (Fin 90) \<and>
   drawing Buckling (after Buckling buckling_page) ! 1
     = StrokedRect ''#0a253a'' (Fin 3) (Fin 130) (Fin 20) (Fin 40) (Fin 90) \<and>
   drawing Buckling (after Buckling buckling_page) \<noteq> drawing Buckling buckling_page"
proof -
  obtain P where d: "drawing Buckling buckling_page =
      [FilledRect ''#d9d9d9'' (Fin 130) (Fin 20) (Fin 40) (Fin 90),
       StrokedRect ''#0a253a'' (Fin 1) (Fin 130) (Fin 20) (Fin 40) (Fin 90),
       StrokedPath ''#6fa8dc'' (Fin 3) [MoveTo (Fin 150) (Fin 20), LineTo (Fin 150) (Fin (- 90))],
       StrokedPath ''#6fa8dc'' (Fin 3)
         [MoveTo (Fin 145) (Fin (- 80)), LineTo (Fin 150) (Fin (- 90)),
          LineTo (Fin 155) (Fin (- 80))],
       FilledText ''#0a253a'' ''12px Arial'' ''start'' (toFixed (Fin P) 1 @ '' kN'')
         (Fin 160) (Fin (- 70))]"
    and d': "drawing Buckling (after Buckling buckling_page) =
      [FilledRect ''#d9d9d9'' (Fin 130) (Fin 20) (Fin 40) (Fin 90),
       StrokedRect ''#0a253a'' (Fin 3) (Fin 130) (Fin 20) (Fin 40) (Fin 90),
       StrokedPath ''#6fa8dc'' (Fin 3) [MoveTo (Fin 150) (Fin 20), LineTo (Fin 150) (Fin (- 90))],
       StrokedPath ''#6fa8dc'' (Fin 3)
         [MoveTo (Fin 145) (Fin (- 80)), LineTo (Fin 150) (Fin (- 90)),
          LineTo (Fin 155) (Fin (- 80))],
       FilledText ''#0a253a'' ''12px Arial'' ''start'' (toFixed (Fin P) 1 @ '' kN'')
         (Fin 160) (Fin (- 70))]"
    by (rule first_buckling_render)
  have v: "val (after Buckling buckling_page) = val buckling_page"
    by (rule val_after_update)
  have comp: "computable Buckling (after Buckling buckling_page)"
    using computable_buckling_page
    by (simp add: computable_Buckling field_after_update)
  have "textContent (after Buckling q) =
      (textContent q)(''buckling-pcr'' :=
         toFixed (buckling_PcrkN (field q ''buckling-e'') (field q ''buckling-i'')
                    (field q ''buckling-l'') (field q ''buckling-k'')) 2 @ '' kN'')"
    if "computable Buckling q" for q
    using updateBuckling_computable [OF that] by (simp add: after_def)
  from this [OF comp] this [OF computable_buckling_page]
  have t: "textContent (after Buckling (after Buckling buckling_page))
      = textContent (after Buckling buckling_page)"
    by (simp add: field_after_update)
  show ?thesis
    using v t by (simp add: d d')
qed

section \<open>Printing and reading decimal digits\<close>





lemma digits_not_empty: "digits n \<noteq> []"
  by (simp add: digits.simps [of n])









section \<open>Reading back a formatted number\<close>


















end
